theory Spec2Isabelle
  imports Main "HOL-Library.AList"
begin

section \<open>The registration service configuration (pkg/configuration/configuration.go)\<close>

text \<open>
  The package wraps a Viper registry, a map of secret values and a derived list of
  excluded e-mail domains in the struct \<open>ViperConfig\<close>. The functions of the package
  (\<open>LoadConfig\<close>, \<open>initConfig\<close>, \<open>New\<close>, \<open>PrintConfig\<close>, \<open>setConfigDefaults\<close> and the
  accessors) are translated one by one below. What they call but do not define is
  modelled first:
  \<^item> the process environment (\<open>os.Setenv\<close>, \<open>os.LookupEnv\<close>) is a map from names to values,
    passed to and returned from every function that writes it, and passed to every
    function that reads it: an accessor reads the environment of the moment of its call;
  \<^item> the helpers of Go's \<open>strings\<close> package are recursive functions on byte strings;
  \<^item> the Viper registry (github.com/spf13/viper) is a record of the settings and layers
    this package touches. Its lookup follows the order the library documents (explicit
    \<open>Set\<close>, flag, environment, configuration file, key/value store, default), restricted to
    the layers the package fills: environment, configuration file, default;
  \<^item> the two loaders of toolchain-common, the file system with its YAML parser, the
    conversions of the cast library between different kinds of value and the order in
    which Go enumerates a map are parameters: every theorem holds for each of them.
\<close>

subsection \<open>Values, errors, environment\<close>

type_synonym environ = "string \<rightharpoonup> string"

text \<open>
  A duration is a number of nanoseconds, as \<open>time.Duration\<close> is. \<open>VMap\<close> is a section: a
  map of further keys, which is what the registry returns for the name of a section.
  \<open>VOther\<close> is a value of another kind that a file can hold (a float, a list, a time).
\<close>

datatype val = VString string | VBool bool | VInt int | VDuration int | VOther string | VMap

text \<open>\<open>Wrap e msg\<close> is \<open>errs.Wrap(e, msg)\<close>: the cause with a message in front.\<close>

datatype error = Failure string | Wrap error string

definition os_Setenv :: "string \<Rightarrow> string \<Rightarrow> environ \<Rightarrow> environ" where
  "os_Setenv key value env = env(key \<mapsto> value)"

definition os_LookupEnv :: "environ \<Rightarrow> string \<Rightarrow> string option" where
  "os_LookupEnv env key = env key"

subsection \<open>Go's strings package\<close>

definition upper_char :: "char \<Rightarrow> char" where
  "upper_char c =
     (case map_of (zip ''abcdefghijklmnopqrstuvwxyz'' ''ABCDEFGHIJKLMNOPQRSTUVWXYZ'') c of
        None \<Rightarrow> c | Some u \<Rightarrow> u)"

definition lower_char :: "char \<Rightarrow> char" where
  "lower_char c =
     (case map_of (zip ''ABCDEFGHIJKLMNOPQRSTUVWXYZ'' ''abcdefghijklmnopqrstuvwxyz'') c of
        None \<Rightarrow> c | Some l \<Rightarrow> l)"

text \<open>
  Upper and lower case of the ASCII letters; every other byte is kept. The keys and the
  prefix of this package are ASCII.
\<close>

definition strings_ToUpper :: "string \<Rightarrow> string" where
  "strings_ToUpper s = map upper_char s"

definition strings_ToLower :: "string \<Rightarrow> string" where
  "strings_ToLower s = map lower_char s"

text \<open>\<open>strings.Split\<close> with a one-byte separator: \<open>cur\<close> is the piece being read.\<close>

fun splitFrom :: "char \<Rightarrow> string \<Rightarrow> string \<Rightarrow> string list" where
  "splitFrom d cur [] = [cur]"
| "splitFrom d cur (c # cs) =
     (if c = d then cur # splitFrom d [] cs else splitFrom d (cur @ [c]) cs)"

definition strings_Split :: "string \<Rightarrow> char \<Rightarrow> string list" where
  "strings_Split s d = splitFrom d [] s"

fun strings_Join :: "string list \<Rightarrow> string \<Rightarrow> string" where
  "strings_Join [] sep = []"
| "strings_Join [x] sep = x"
| "strings_Join (x # y # ys) sep = x @ sep @ strings_Join (y # ys) sep"

text \<open>\<open>strings.NewReplacer(old, new).Replace\<close> for one-byte \<open>old\<close> and \<open>new\<close>.\<close>

definition Replace :: "char \<times> char \<Rightarrow> string \<Rightarrow> string" where
  "Replace r s = map (\<lambda>c. if c = fst r then snd r else c) s"

text \<open>
  \<open>strings.FieldsFunc(s, f)\<close>: the maximal runs of bytes not satisfying \<open>f\<close>; empty
  runs are not fields. The separator of this package is the comma, an ASCII byte, so
  that splitting bytes and splitting code points agree.
\<close>

fun fieldsFrom :: "(char \<Rightarrow> bool) \<Rightarrow> string \<Rightarrow> string \<Rightarrow> string list" where
  "fieldsFrom f cur [] = (if cur = [] then [] else [cur])"
| "fieldsFrom f cur (c # cs) =
     (if f c then (if cur = [] then fieldsFrom f [] cs else cur # fieldsFrom f [] cs)
      else fieldsFrom f (cur @ [c]) cs)"

definition strings_FieldsFunc :: "string \<Rightarrow> (char \<Rightarrow> bool) \<Rightarrow> string list" where
  "strings_FieldsFunc s f = fieldsFrom f [] s"

subsection \<open>The cast library\<close>

text \<open>
  A value of the kind asked for is returned as it is; a missing value (\<open>nil\<close>) and a map
  give the zero value of the kind. Converting between the other kinds (parsing a string,
  printing a number) is left to the parameter \<open>cv\<close>.
\<close>

record casts =
  castString :: "val \<Rightarrow> string"
  castBool :: "val \<Rightarrow> bool"
  castInt :: "val \<Rightarrow> int"
  castDuration :: "val \<Rightarrow> int"

fun ToString :: "casts \<Rightarrow> val option \<Rightarrow> string" where
  "ToString cv None = []"
| "ToString cv (Some (VString s)) = s"
| "ToString cv (Some VMap) = []"
| "ToString cv (Some x) = castString cv x"

fun ToBool :: "casts \<Rightarrow> val option \<Rightarrow> bool" where
  "ToBool cv None = False"
| "ToBool cv (Some (VBool b)) = b"
| "ToBool cv (Some VMap) = False"
| "ToBool cv (Some x) = castBool cv x"

fun ToInt :: "casts \<Rightarrow> val option \<Rightarrow> int" where
  "ToInt cv None = 0"
| "ToInt cv (Some (VInt i)) = i"
| "ToInt cv (Some VMap) = 0"
| "ToInt cv (Some x) = castInt cv x"

fun ToDuration :: "casts \<Rightarrow> val option \<Rightarrow> int" where
  "ToDuration cv None = 0"
| "ToDuration cv (Some (VDuration d)) = d"
| "ToDuration cv (Some VMap) = 0"
| "ToDuration cv (Some x) = castDuration cv x"

subsection \<open>The Viper registry\<close>

text \<open>
  The layers are association lists from lower-case dotted keys to values. \<open>config\<close>
  holds the values of the parsed file that are not maps, each under its dotted path; the
  nested maps of the library are kept flat, a section being the common prefix of its
  keys. No
  key that this package registers as a default is a parent of another. The package
  never calls \<open>Set\<close>, \<open>BindEnv\<close> or \<open>BindPFlag\<close> and adds no remote store, so those
  layers of the library are always empty and are left out.
\<close>

record viper =
  envPrefix :: string
  automaticEnvApplied :: bool
  envKeyReplacer :: "(char \<times> char) option"
  typeByDefValue :: bool
  configType :: string
  configFile :: string
  config :: "(string \<times> val) list"
  defaults :: "(string \<times> val) list"

definition viper_New :: viper where
  "viper_New = \<lparr>envPrefix = [], automaticEnvApplied = False, envKeyReplacer = None,
     typeByDefValue = False, configType = [], configFile = [], config = [], defaults = []\<rparr>"

definition SetEnvPrefix :: "string \<Rightarrow> viper \<Rightarrow> viper" where
  "SetEnvPrefix p vp = vp\<lparr>envPrefix := p\<rparr>"

definition AutomaticEnv :: "viper \<Rightarrow> viper" where
  "AutomaticEnv vp = vp\<lparr>automaticEnvApplied := True\<rparr>"

definition SetEnvKeyReplacer :: "char \<times> char \<Rightarrow> viper \<Rightarrow> viper" where
  "SetEnvKeyReplacer r vp = vp\<lparr>envKeyReplacer := Some r\<rparr>"

definition SetTypeByDefaultValue :: "bool \<Rightarrow> viper \<Rightarrow> viper" where
  "SetTypeByDefaultValue b vp = vp\<lparr>typeByDefValue := b\<rparr>"

definition SetDefault :: "string \<Rightarrow> val \<Rightarrow> viper \<Rightarrow> viper" where
  "SetDefault key value vp =
     vp\<lparr>defaults := AList.update (strings_ToLower key) value (defaults vp)\<rparr>"

definition SetConfigType :: "string \<Rightarrow> viper \<Rightarrow> viper" where
  "SetConfigType t vp = vp\<lparr>configType := t\<rparr>"

definition SetConfigFile :: "string \<Rightarrow> viper \<Rightarrow> viper" where
  "SetConfigFile p vp = vp\<lparr>configFile := p\<rparr>"

text \<open>
  \<open>ReadInConfig\<close> reads and parses the configured file. The file system and the parser
  are the parameter \<open>fs\<close>: from the type and the path to an error or the values of the
  file as the registry stores them, under their lower-case dotted paths.
\<close>

definition ReadInConfig ::
  "(string \<Rightarrow> string \<Rightarrow> error + (string \<times> val) list) \<Rightarrow> viper \<Rightarrow> error + viper" where
  "ReadInConfig fs vp =
     (case fs (configType vp) (configFile vp) of
        Inl err \<Rightarrow> Inl err
      | Inr m \<Rightarrow> Inr (vp\<lparr>config := m\<rparr>))"

definition mergeWithEnvPrefix :: "viper \<Rightarrow> string \<Rightarrow> string" where
  "mergeWithEnvPrefix vp inp =
     (if envPrefix vp \<noteq> [] then strings_ToUpper (envPrefix vp @ ''_'' @ inp)
      else strings_ToUpper inp)"

text \<open>A variable that is set to the empty string counts as not set.\<close>

definition getEnv :: "viper \<Rightarrow> environ \<Rightarrow> string \<Rightarrow> string option" where
  "getEnv vp env key =
     (let k = (case envKeyReplacer vp of None \<Rightarrow> key | Some r \<Rightarrow> Replace r key)
      in case os_LookupEnv env k of
           None \<Rightarrow> None
         | Some s \<Rightarrow> if s \<noteq> [] then Some s else None)"

text \<open>The proper prefixes of a path, shortest first, each joined with the dot.\<close>

definition parentKeys :: "string list \<Rightarrow> string list" where
  "parentKeys path = map (\<lambda>i. strings_Join (take i path) ''.'') [1..<length path]"

text \<open>
  \<open>searchMap\<close> reads a key in a layer: the value stored under the key, or a map when the
  key is the name of a section, that is when values are stored below it.
\<close>

definition isSection :: "(string \<times> val) list \<Rightarrow> string \<Rightarrow> bool" where
  "isSection m key =
     (filter (\<lambda>k. take (Suc (length key)) k = key @ ''.'') (map fst m) \<noteq> [])"

definition searchMap :: "(string \<times> val) list \<Rightarrow> string \<Rightarrow> val option" where
  "searchMap m key =
     (case map_of m key of
        Some x \<Rightarrow> Some x
      | None \<Rightarrow> if isSection m key then Some VMap else None)"

text \<open>
  A nested key is shadowed when a variable is set for one of its parents, or when the
  file gives one of its parents a scalar value. Both return the first such parent, or
  the empty string.
\<close>

definition isPathShadowedInAutoEnv :: "viper \<Rightarrow> environ \<Rightarrow> string list \<Rightarrow> string" where
  "isPathShadowedInAutoEnv vp env path =
     (case filter (\<lambda>p. getEnv vp env (mergeWithEnvPrefix vp p) \<noteq> None) (parentKeys path) of
        [] \<Rightarrow> []
      | p # ps \<Rightarrow> p)"

definition isPathShadowedInDeepMap :: "string list \<Rightarrow> (string \<times> val) list \<Rightarrow> string" where
  "isPathShadowedInDeepMap path m =
     (case filter (\<lambda>p. map_of m p \<noteq> None) (parentKeys path) of
        [] \<Rightarrow> []
      | p # ps \<Rightarrow> p)"

text \<open>The lookup of the library: environment, then file, then defaults.\<close>

definition viper_find :: "viper \<Rightarrow> environ \<Rightarrow> string \<Rightarrow> val option" where
  "viper_find vp env lcaseKey =
     (let path = strings_Split lcaseKey (CHR ''.'');
          nested = (length path > 1);
          fromEnv = (if automaticEnvApplied vp
                     then getEnv vp env (mergeWithEnvPrefix vp lcaseKey) else None)
      in case fromEnv of
           Some s \<Rightarrow> Some (VString s)
         | None \<Rightarrow>
             if automaticEnvApplied vp \<and> nested \<and> isPathShadowedInAutoEnv vp env path \<noteq> []
             then None
             else (case searchMap (config vp) lcaseKey of
                     Some x \<Rightarrow> Some x
                   | None \<Rightarrow>
                       if nested \<and> isPathShadowedInDeepMap path (config vp) \<noteq> [] then None
                       else searchMap (defaults vp) lcaseKey))"

text \<open>
  With \<open>SetTypeByDefaultValue(true)\<close>, \<open>Get\<close> converts what it found to the kind of the
  key's default, or to its own kind when the key has no default. A value of a kind
  without a conversion of its own is returned as it is.
\<close>

definition castAs :: "casts \<Rightarrow> val \<Rightarrow> val \<Rightarrow> val" where
  "castAs cv valType x =
     (case valType of
        VBool b \<Rightarrow> VBool (ToBool cv (Some x))
      | VString s \<Rightarrow> VString (ToString cv (Some x))
      | VInt i \<Rightarrow> VInt (ToInt cv (Some x))
      | VDuration d \<Rightarrow> VDuration (ToDuration cv (Some x))
      | VOther y \<Rightarrow> x
      | VMap \<Rightarrow> x)"

definition Get :: "casts \<Rightarrow> viper \<Rightarrow> environ \<Rightarrow> string \<Rightarrow> val option" where
  "Get cv vp env key =
     (let lcaseKey = strings_ToLower key
      in case viper_find vp env lcaseKey of
           None \<Rightarrow> None
         | Some x \<Rightarrow>
             if typeByDefValue vp
             then (let valType = (case searchMap (defaults vp) lcaseKey of
                                    Some d \<Rightarrow> d | None \<Rightarrow> x)
                   in Some (castAs cv valType x))
             else Some x)"

definition GetString :: "casts \<Rightarrow> viper \<Rightarrow> environ \<Rightarrow> string \<Rightarrow> string" where
  "GetString cv vp env key = ToString cv (Get cv vp env key)"

definition GetBool :: "casts \<Rightarrow> viper \<Rightarrow> environ \<Rightarrow> string \<Rightarrow> bool" where
  "GetBool cv vp env key = ToBool cv (Get cv vp env key)"

definition GetInt :: "casts \<Rightarrow> viper \<Rightarrow> environ \<Rightarrow> string \<Rightarrow> int" where
  "GetInt cv vp env key = ToInt cv (Get cv vp env key)"

definition GetDuration :: "casts \<Rightarrow> viper \<Rightarrow> environ \<Rightarrow> string \<Rightarrow> int" where
  "GetDuration cv vp env key = ToDuration cv (Get cv vp env key)"

text \<open>
  \<open>AllKeys\<close> collects the keys of the layers that store values, in the order of their
  priority: here the file, then the defaults. \<open>flattenAndMergeMap\<close> adds the keys of one
  layer to the keys collected so far (\<open>shadow\<close>) and leaves out a key that lies under a
  parent which a layer before it gave a value: such a key cannot be read. Go enumerates
  the result in no fixed order: \<open>ord\<close> is the order of one run.
\<close>

definition isShadowed :: "string list \<Rightarrow> string \<Rightarrow> bool" where
  "isShadowed shadow key =
     (filter (\<lambda>p. p \<noteq> [] \<and> p \<in> set shadow) (parentKeys (strings_Split key (CHR ''.''))) \<noteq> [])"

definition flattenAndMergeMap :: "string list \<Rightarrow> (string \<times> val) list \<Rightarrow> string list" where
  "flattenAndMergeMap shadow m =
     shadow @ filter (\<lambda>key. \<not> isShadowed shadow key) (map fst m)"

definition AllKeys :: "(string list \<Rightarrow> string list) \<Rightarrow> viper \<Rightarrow> string list" where
  "AllKeys ord vp =
     (let m0 = flattenAndMergeMap [] (config vp);
          m1 = flattenAndMergeMap m0 (defaults vp)
      in ord (remdups m1))"

subsection \<open>Constants of the package\<close>

definition EnvPrefix :: string where "EnvPrefix = ''REGISTRATION''"

definition varHTTPAddress :: string where "varHTTPAddress = ''http.address''"
definition DefaultHTTPAddress :: string where "DefaultHTTPAddress = ''0.0.0.0:8080''"

definition Second :: int where "Second = 1000000000"

definition varHTTPIdleTimeout :: string where "varHTTPIdleTimeout = ''http.idle_timeout''"
definition DefaultHTTPIdleTimeout :: int where "DefaultHTTPIdleTimeout = Second * 15"

definition varHTTPCompressResponses :: string where "varHTTPCompressResponses = ''http.compress''"
definition DefaultHTTPCompressResponses :: bool where "DefaultHTTPCompressResponses = True"

definition varEnvironment :: string where "varEnvironment = ''environment''"
definition DefaultEnvironment :: string where "DefaultEnvironment = ''prod''"
definition UnitTestsEnvironment :: string where "UnitTestsEnvironment = ''unit-tests''"

definition varLogLevel :: string where "varLogLevel = ''log.level''"
definition DefaultLogLevel :: string where "DefaultLogLevel = ''info''"

definition varLogJSON :: string where "varLogJSON = ''log.json''"
definition DefaultLogJSON :: bool where "DefaultLogJSON = False"

definition varGracefulTimeout :: string where "varGracefulTimeout = ''graceful_timeout''"
definition DefaultGracefulTimeout :: int where "DefaultGracefulTimeout = Second * 15"

definition varHTTPWriteTimeout :: string where "varHTTPWriteTimeout = ''http.write_timeout''"
definition DefaultHTTPWriteTimeout :: int where "DefaultHTTPWriteTimeout = Second * 15"

definition varHTTPReadTimeout :: string where "varHTTPReadTimeout = ''http.read_timeout''"
definition DefaultHTTPReadTimeout :: int where "DefaultHTTPReadTimeout = Second * 15"

definition varAuthClientLibraryURL :: string where
  "varAuthClientLibraryURL = ''auth_client.library_url''"
definition DefaultAuthClientLibraryURL :: string where
  "DefaultAuthClientLibraryURL = ''http://129.40.58.177:8082/auth/js/keycloak.js''"

definition varAuthClientConfigRaw :: string where
  "varAuthClientConfigRaw = ''auth_client.config.raw''"

text \<open>The raw literal of the source: eight lines, the inner ones behind a tab.\<close>

definition DefaultAuthClientConfigRaw :: string where
  "DefaultAuthClientConfigRaw =
     ''{'' @ [CHR 0x0A, CHR 0x09] @
     ''  '' @ [CHR 0x22] @ ''realm'' @ [CHR 0x22] @ '': '' @ [CHR 0x22] @ ''local'' @ [CHR 0x22] @
       '','' @ [CHR 0x0A, CHR 0x09] @
     ''  '' @ [CHR 0x22] @ ''auth-server-url'' @ [CHR 0x22] @ '': '' @ [CHR 0x22] @
       ''http://129.40.58.177:8082/auth'' @ [CHR 0x22] @ '','' @ [CHR 0x0A, CHR 0x09] @
     ''  '' @ [CHR 0x22] @ ''ssl-required'' @ [CHR 0x22] @ '': '' @ [CHR 0x22] @ ''none'' @
       [CHR 0x22] @ '','' @ [CHR 0x0A, CHR 0x09] @
     ''  '' @ [CHR 0x22] @ ''resource'' @ [CHR 0x22] @ '': '' @ [CHR 0x22] @ ''crt'' @ [CHR 0x22] @
       '','' @ [CHR 0x0A, CHR 0x09] @
     ''  '' @ [CHR 0x22] @ ''clientId'' @ [CHR 0x22] @ '': '' @ [CHR 0x22] @ ''crt'' @ [CHR 0x22] @
       '','' @ [CHR 0x0A, CHR 0x09] @
     ''  '' @ [CHR 0x22] @ ''public-client'' @ [CHR 0x22] @ '': true'' @ [CHR 0x0A, CHR 0x09] @
     ''}''"

definition varAuthClientConfigContentType :: string where
  "varAuthClientConfigContentType = ''auth_client.config.content_type''"
definition DefaultAuthClientConfigContentType :: string where
  "DefaultAuthClientConfigContentType = ''application/json; charset=utf-8''"

definition varAuthClientPublicKeysURL :: string where
  "varAuthClientPublicKeysURL = ''auth_client.public_keys_url''"
definition DefaultAuthClientPublicKeysURL :: string where
  "DefaultAuthClientPublicKeysURL =
     ''http://129.40.58.177:8082/auth/realms/local/protocol/openid-connect/certs''"

definition varNamespace :: string where "varNamespace = ''namespace''"
definition DefaultNamespace :: string where "DefaultNamespace = ''toolchain-host-operator''"

definition varVerificationEnabled :: string where
  "varVerificationEnabled = ''verification.enabled''"
definition DefaultVerificationEnabled :: bool where "DefaultVerificationEnabled = False"

definition varVerificationDailyLimit :: string where
  "varVerificationDailyLimit = ''verification.daily_limit''"
definition DefaultVerificationDailyLimit :: int where "DefaultVerificationDailyLimit = 5"

definition varVerificationAttemptsAllowed :: string where
  "varVerificationAttemptsAllowed = ''verification.attempts_allowed''"
definition DefaultVerificationAttemptsAllowed :: int where
  "DefaultVerificationAttemptsAllowed = 3"

definition varTwilioAccountSID :: string where "varTwilioAccountSID = ''twilio.account.sid''"
definition varTwilioAuthToken :: string where "varTwilioAuthToken = ''twilio.auth.token''"
definition varTwilioFromNumber :: string where "varTwilioFromNumber = ''twilio.from_number''"

definition varVerificationMessageTemplate :: string where
  "varVerificationMessageTemplate = ''verification.message_template''"
definition DefaultVerificationMessageTemplate :: string where
  "DefaultVerificationMessageTemplate =
     ''Developer Sandbox for Red Hat OpenShift: Your verification code is %s''"

definition varVerificationExcludedEmailDomains :: string where
  "varVerificationExcludedEmailDomains = ''verification.excluded_email_domains''"

definition varVerificationCodeExpiresInMin :: string where
  "varVerificationCodeExpiresInMin = ''verification.code_expires_in_min''"
definition DefaultVerificationCodeExpiresInMin :: int where
  "DefaultVerificationCodeExpiresInMin = 5"

definition varWoopraDomain :: string where "varWoopraDomain = ''woopra.domain''"
definition varSegmentWriteKey :: string where "varSegmentWriteKey = ''segment.write_key''"

subsection \<open>ViperConfig and its construction\<close>

text \<open>The field \<open>v\<close> of the struct is \<open>vreg\<close> here.\<close>

record ViperConfig =
  vreg :: viper
  secretValues :: "string \<rightharpoonup> string"
  excludedDomains :: "string list"

text \<open>
  The cluster client is used only through the two loaders of toolchain-common.
  \<open>LoadFromSecret key cl\<close> reads the environment and returns the secret map or an error;
  \<open>LoadFromConfigMap prefix key cl\<close> may set environment variables and may fail.
\<close>

record client =
  LoadFromSecret :: "string \<Rightarrow> environ \<Rightarrow> error + (string \<rightharpoonup> string)"
  LoadFromConfigMap :: "string \<Rightarrow> string \<Rightarrow> environ \<Rightarrow> error option \<times> environ"

definition setConfigDefaults :: "viper \<Rightarrow> viper" where
  "setConfigDefaults vp =
     (let v0 = SetTypeByDefaultValue True vp;
          v1 = SetDefault varHTTPAddress (VString DefaultHTTPAddress) v0;
          v2 = SetDefault varHTTPCompressResponses (VBool DefaultHTTPCompressResponses) v1;
          v3 = SetDefault varHTTPWriteTimeout (VDuration DefaultHTTPWriteTimeout) v2;
          v4 = SetDefault varHTTPReadTimeout (VDuration DefaultHTTPReadTimeout) v3;
          v5 = SetDefault varHTTPIdleTimeout (VDuration DefaultHTTPIdleTimeout) v4;
          v6 = SetDefault varEnvironment (VString DefaultEnvironment) v5;
          v7 = SetDefault varLogLevel (VString DefaultLogLevel) v6;
          v8 = SetDefault varLogJSON (VBool DefaultLogJSON) v7;
          v9 = SetDefault varGracefulTimeout (VDuration DefaultGracefulTimeout) v8;
          v10 = SetDefault varAuthClientLibraryURL (VString DefaultAuthClientLibraryURL) v9;
          v11 = SetDefault varAuthClientConfigContentType (VString DefaultAuthClientConfigContentType) v10;
          v12 = SetDefault varAuthClientPublicKeysURL (VString DefaultAuthClientPublicKeysURL) v11;
          v13 = SetDefault varNamespace (VString DefaultNamespace) v12;
          v14 = SetDefault varAuthClientConfigRaw (VString DefaultAuthClientConfigRaw) v13;
          v15 = SetDefault varVerificationEnabled (VBool DefaultVerificationEnabled) v14;
          v16 = SetDefault varVerificationDailyLimit (VInt DefaultVerificationDailyLimit) v15;
          v17 = SetDefault varVerificationAttemptsAllowed (VInt DefaultVerificationAttemptsAllowed) v16;
          v18 = SetDefault varVerificationMessageTemplate (VString DefaultVerificationMessageTemplate) v17;
          v19 = SetDefault varVerificationCodeExpiresInMin (VInt DefaultVerificationCodeExpiresInMin) v18
      in v19)"

definition isComma :: "char \<Rightarrow> bool" where
  "isComma c = (c = CHR '','')"

definition initConfig :: "casts \<Rightarrow> (string \<rightharpoonup> string) \<Rightarrow> environ \<Rightarrow> ViperConfig" where
  "initConfig cv secret env =
     (let v0 = viper_New;
          v1 = SetEnvPrefix EnvPrefix v0;
          v2 = AutomaticEnv v1;
          v3 = SetEnvKeyReplacer (CHR ''.'', CHR ''_'') v2;
          v4 = SetTypeByDefaultValue True v3;
          v5 = setConfigDefaults v4
      in \<lparr>vreg = v5, secretValues = secret,
          excludedDomains =
            strings_FieldsFunc (GetString cv v5 env varVerificationExcludedEmailDomains) isComma\<rparr>)"

definition LoadConfig :: "casts \<Rightarrow> client \<Rightarrow> environ \<Rightarrow> (error + ViperConfig) \<times> environ" where
  "LoadConfig cv cl env =
     (let env1 = os_Setenv ''HOST_OPERATOR_SECRET_NAME'' ''host-operator-secret'' env
      in case LoadFromSecret cl ''HOST_OPERATOR_SECRET_NAME'' env1 of
           Inl err \<Rightarrow> (Inl err, env1)
         | Inr secret \<Rightarrow>
             (let env2 = os_Setenv ''HOST_OPERATOR_CONFIG_MAP_NAME'' ''host-operator-config'' env1
              in case LoadFromConfigMap cl EnvPrefix ''HOST_OPERATOR_CONFIG_MAP_NAME'' env2 of
                   (Some err, env3) \<Rightarrow> (Inl err, env3)
                 | (None, env3) \<Rightarrow> (Inr (initConfig cv secret env3), env3)))"

definition New ::
  "casts \<Rightarrow> (string \<Rightarrow> string \<Rightarrow> error + (string \<times> val) list) \<Rightarrow> string \<Rightarrow> client \<Rightarrow>
   environ \<Rightarrow> (error + ViperConfig) \<times> environ" where
  "New cv fs configFilePath cl env =
     (case LoadConfig cv cl env of
        (Inl err, env') \<Rightarrow> (Inl err, env')
      | (Inr c, env') \<Rightarrow>
          if configFilePath \<noteq> [] then
            (case ReadInConfig fs (SetConfigFile configFilePath (SetConfigType ''yaml'' (vreg c))) of
               Inl err \<Rightarrow> (Inl (Wrap err ''failed to read config file''), env')
             | Inr v' \<Rightarrow>
                 if GetString cv v' env' varVerificationExcludedEmailDomains \<noteq> []
                 then (Inr (c\<lparr>vreg := v',
                              excludedDomains :=
                                strings_FieldsFunc
                                  (GetString cv v' env' varVerificationExcludedEmailDomains)
                                  isComma\<rparr>), env')
                 else (Inr (c\<lparr>vreg := v'\<rparr>), env'))
          else (Inr c, env'))"

subsection \<open>PrintConfig\<close>

text \<open>A logger carries its name and the key/value pairs added so far.\<close>

record logger =
  loggerName :: string
  loggerValues :: "(string \<times> val option) list"

record logLine =
  lineLogger :: string
  lineMessage :: string
  lineValues :: "(string \<times> val option) list"

definition log :: logger where
  "log = \<lparr>loggerName = ''configuration'', loggerValues = []\<rparr>"

definition WithValues :: "logger \<Rightarrow> string \<Rightarrow> val option \<Rightarrow> logger" where
  "WithValues lg key value = lg\<lparr>loggerValues := loggerValues lg @ [(key, value)]\<rparr>"

definition Info :: "logger \<Rightarrow> string \<Rightarrow> logLine" where
  "Info lg msg = \<lparr>lineLogger = loggerName lg, lineMessage = msg, lineValues = loggerValues lg\<rparr>"

definition PrintConfig ::
  "(string list \<Rightarrow> string list) \<Rightarrow> casts \<Rightarrow> ViperConfig \<Rightarrow> environ \<Rightarrow> logLine" where
  "PrintConfig ord cv c env =
     (let keys = AllKeys ord (vreg c);
          logWithValuesRegServ =
            foldl (\<lambda>lg key. WithValues lg key (Get cv (vreg c) env key)) log keys
      in Info logWithValuesRegServ ''Registration service configuration variables:'')"

subsection \<open>The accessors\<close>

definition GetHTTPAddress :: "casts \<Rightarrow> ViperConfig \<Rightarrow> environ \<Rightarrow> string" where
  "GetHTTPAddress cv c env = GetString cv (vreg c) env varHTTPAddress"

definition GetHTTPCompressResponses :: "casts \<Rightarrow> ViperConfig \<Rightarrow> environ \<Rightarrow> bool" where
  "GetHTTPCompressResponses cv c env = GetBool cv (vreg c) env varHTTPCompressResponses"

definition GetHTTPWriteTimeout :: "casts \<Rightarrow> ViperConfig \<Rightarrow> environ \<Rightarrow> int" where
  "GetHTTPWriteTimeout cv c env = GetDuration cv (vreg c) env varHTTPWriteTimeout"

definition GetHTTPReadTimeout :: "casts \<Rightarrow> ViperConfig \<Rightarrow> environ \<Rightarrow> int" where
  "GetHTTPReadTimeout cv c env = GetDuration cv (vreg c) env varHTTPReadTimeout"

definition GetHTTPIdleTimeout :: "casts \<Rightarrow> ViperConfig \<Rightarrow> environ \<Rightarrow> int" where
  "GetHTTPIdleTimeout cv c env = GetDuration cv (vreg c) env varHTTPIdleTimeout"

definition GetEnvironment :: "casts \<Rightarrow> ViperConfig \<Rightarrow> environ \<Rightarrow> string" where
  "GetEnvironment cv c env = GetString cv (vreg c) env varEnvironment"

definition GetLogLevel :: "casts \<Rightarrow> ViperConfig \<Rightarrow> environ \<Rightarrow> string" where
  "GetLogLevel cv c env = GetString cv (vreg c) env varLogLevel"

definition IsLogJSON :: "casts \<Rightarrow> ViperConfig \<Rightarrow> environ \<Rightarrow> bool" where
  "IsLogJSON cv c env = GetBool cv (vreg c) env varLogJSON"

definition GetGracefulTimeout :: "casts \<Rightarrow> ViperConfig \<Rightarrow> environ \<Rightarrow> int" where
  "GetGracefulTimeout cv c env = GetDuration cv (vreg c) env varGracefulTimeout"

definition IsTestingMode :: "casts \<Rightarrow> ViperConfig \<Rightarrow> environ \<Rightarrow> bool" where
  "IsTestingMode cv c env = (GetEnvironment cv c env = UnitTestsEnvironment)"

definition GetAuthClientLibraryURL :: "casts \<Rightarrow> ViperConfig \<Rightarrow> environ \<Rightarrow> string" where
  "GetAuthClientLibraryURL cv c env = GetString cv (vreg c) env varAuthClientLibraryURL"

definition GetAuthClientConfigAuthContentType :: "casts \<Rightarrow> ViperConfig \<Rightarrow> environ \<Rightarrow> string" where
  "GetAuthClientConfigAuthContentType cv c env =
     GetString cv (vreg c) env varAuthClientConfigContentType"

definition GetAuthClientConfigAuthRaw :: "casts \<Rightarrow> ViperConfig \<Rightarrow> environ \<Rightarrow> string" where
  "GetAuthClientConfigAuthRaw cv c env = GetString cv (vreg c) env varAuthClientConfigRaw"

text \<open>Reading a Go map at a key it does not hold gives the empty string.\<close>

definition mapIndex :: "(string \<rightharpoonup> string) \<Rightarrow> string \<Rightarrow> string" where
  "mapIndex m key = (case m key of None \<Rightarrow> [] | Some s \<Rightarrow> s)"

definition GetTwilioAccountSID :: "ViperConfig \<Rightarrow> string" where
  "GetTwilioAccountSID c = mapIndex (secretValues c) varTwilioAccountSID"

definition GetTwilioAuthToken :: "ViperConfig \<Rightarrow> string" where
  "GetTwilioAuthToken c = mapIndex (secretValues c) varTwilioAuthToken"

definition GetAuthClientPublicKeysURL :: "casts \<Rightarrow> ViperConfig \<Rightarrow> environ \<Rightarrow> string" where
  "GetAuthClientPublicKeysURL cv c env = GetString cv (vreg c) env varAuthClientPublicKeysURL"

definition GetNamespace :: "casts \<Rightarrow> ViperConfig \<Rightarrow> environ \<Rightarrow> string" where
  "GetNamespace cv c env = GetString cv (vreg c) env varNamespace"

definition GetVerificationEnabled :: "casts \<Rightarrow> ViperConfig \<Rightarrow> environ \<Rightarrow> bool" where
  "GetVerificationEnabled cv c env = GetBool cv (vreg c) env varVerificationEnabled"

definition GetVerificationDailyLimit :: "casts \<Rightarrow> ViperConfig \<Rightarrow> environ \<Rightarrow> int" where
  "GetVerificationDailyLimit cv c env = GetInt cv (vreg c) env varVerificationDailyLimit"

definition GetVerificationAttemptsAllowed :: "casts \<Rightarrow> ViperConfig \<Rightarrow> environ \<Rightarrow> int" where
  "GetVerificationAttemptsAllowed cv c env =
     GetInt cv (vreg c) env varVerificationAttemptsAllowed"

definition GetVerificationMessageTemplate :: "casts \<Rightarrow> ViperConfig \<Rightarrow> environ \<Rightarrow> string" where
  "GetVerificationMessageTemplate cv c env =
     GetString cv (vreg c) env varVerificationMessageTemplate"

definition GetVerificationExcludedEmailDomains :: "ViperConfig \<Rightarrow> string list" where
  "GetVerificationExcludedEmailDomains c = excludedDomains c"

definition GetTwilioFromNumber :: "ViperConfig \<Rightarrow> string" where
  "GetTwilioFromNumber c = mapIndex (secretValues c) varTwilioFromNumber"

definition GetVerificationCodeExpiresInMin :: "casts \<Rightarrow> ViperConfig \<Rightarrow> environ \<Rightarrow> int" where
  "GetVerificationCodeExpiresInMin cv c env =
     GetInt cv (vreg c) env varVerificationCodeExpiresInMin"

definition GetWoopraDomain :: "casts \<Rightarrow> ViperConfig \<Rightarrow> environ \<Rightarrow> string" where
  "GetWoopraDomain cv c env = GetString cv (vreg c) env varWoopraDomain"

definition GetSegmentWriteKey :: "casts \<Rightarrow> ViperConfig \<Rightarrow> environ \<Rightarrow> string" where
  "GetSegmentWriteKey cv c env = GetString cv (vreg c) env varSegmentWriteKey"

section \<open>Tables and inputs used in the statements\<close>

text \<open>
  The defaults that \<open>setConfigDefaults\<close> registers, in the order of its calls.
\<close>

definition registeredDefaults :: "(string \<times> val) list" where
  "registeredDefaults =
    [(varHTTPAddress, VString DefaultHTTPAddress),
     (varHTTPCompressResponses, VBool DefaultHTTPCompressResponses),
     (varHTTPWriteTimeout, VDuration DefaultHTTPWriteTimeout),
     (varHTTPReadTimeout, VDuration DefaultHTTPReadTimeout),
     (varHTTPIdleTimeout, VDuration DefaultHTTPIdleTimeout),
     (varEnvironment, VString DefaultEnvironment),
     (varLogLevel, VString DefaultLogLevel),
     (varLogJSON, VBool DefaultLogJSON),
     (varGracefulTimeout, VDuration DefaultGracefulTimeout),
     (varAuthClientLibraryURL, VString DefaultAuthClientLibraryURL),
     (varAuthClientConfigContentType, VString DefaultAuthClientConfigContentType),
     (varAuthClientPublicKeysURL, VString DefaultAuthClientPublicKeysURL),
     (varNamespace, VString DefaultNamespace),
     (varAuthClientConfigRaw, VString DefaultAuthClientConfigRaw),
     (varVerificationEnabled, VBool DefaultVerificationEnabled),
     (varVerificationDailyLimit, VInt DefaultVerificationDailyLimit),
     (varVerificationAttemptsAllowed, VInt DefaultVerificationAttemptsAllowed),
     (varVerificationMessageTemplate, VString DefaultVerificationMessageTemplate),
     (varVerificationCodeExpiresInMin, VInt DefaultVerificationCodeExpiresInMin)]"

text \<open>The recognized options, grouped by the kind of value their accessor returns.\<close>

definition stringKeys :: "string list" where
  "stringKeys = [varHTTPAddress, varEnvironment, varLogLevel, varAuthClientLibraryURL,
     varAuthClientConfigContentType, varAuthClientConfigRaw, varAuthClientPublicKeysURL,
     varNamespace, varVerificationMessageTemplate, varVerificationExcludedEmailDomains,
     varWoopraDomain, varSegmentWriteKey]"

definition boolKeys :: "string list" where
  "boolKeys = [varHTTPCompressResponses, varLogJSON, varVerificationEnabled]"

definition intKeys :: "string list" where
  "intKeys = [varVerificationDailyLimit, varVerificationAttemptsAllowed,
     varVerificationCodeExpiresInMin]"

definition durationKeys :: "string list" where
  "durationKeys = [varHTTPWriteTimeout, varHTTPReadTimeout, varHTTPIdleTimeout,
     varGracefulTimeout]"

definition recognizedKeys :: "string list" where
  "recognizedKeys = stringKeys @ boolKeys @ intKeys @ durationKeys"

text \<open>
  The environment is silent about a key when neither the variable bound to the key nor
  a variable bound to one of its parents is set to a non-empty value. The file is silent
  about a key when it has no value for the key, no value below the key and no scalar
  value for one of its parents.
\<close>

definition envSilent :: "viper \<Rightarrow> environ \<Rightarrow> string \<Rightarrow> bool" where
  "envSilent vp env key =
     (getEnv vp env (mergeWithEnvPrefix vp key) = None \<and>
      isPathShadowedInAutoEnv vp env (strings_Split key (CHR ''.'')) = [])"

definition fileSilent :: "viper \<Rightarrow> string \<Rightarrow> bool" where
  "fileSilent vp key =
     (searchMap (config vp) key = None \<and>
      isPathShadowedInDeepMap (strings_Split key (CHR ''.'')) (config vp) = [])"

text \<open>
  Concrete collaborators for the examples: conversions that fail (the cast library then
  gives the zero value), a file system without files, and a cluster that holds the
  Twilio secret and no config map.
\<close>

definition noCasts :: casts where
  "noCasts = \<lparr>castString = (\<lambda>x. []), castBool = (\<lambda>x. False), castInt = (\<lambda>x. 0),
     castDuration = (\<lambda>x. 0)\<rparr>"

definition noFiles :: "string \<Rightarrow> string \<Rightarrow> error + (string \<times> val) list" where
  "noFiles t p = Inl (Failure ''no such file or directory'')"

definition twilioSecret :: "string \<rightharpoonup> string" where
  "twilioSecret = [''twilio.account.sid'' \<mapsto> ''AC0123'', ''twilio.auth.token'' \<mapsto> ''t0k3n'',
     ''twilio.from_number'' \<mapsto> ''+15550100'']"

definition twilioClient :: client where
  "twilioClient = \<lparr>LoadFromSecret = (\<lambda>key env. Inr twilioSecret),
     LoadFromConfigMap = (\<lambda>prefix key env. (None, env))\<rparr>"

definition twilioFile :: "string \<Rightarrow> string \<Rightarrow> error + (string \<times> val) list" where
  "twilioFile t p = Inr [(''twilio.account.sid'', VString ''from-file''),
     (''http.address'', VString ''10.0.0.1:80'')]"

definition twilioEnv :: environ where
  "twilioEnv = [''REGISTRATION_TWILIO_ACCOUNT_SID'' \<mapsto> ''from-env'',
     ''REGISTRATION_HTTP_ADDRESS'' \<mapsto> ''127.0.0.1:9090'']"

text \<open>
  Clusters whose secret or config map cannot be read, a cluster whose secret loader
  reports the secret name it finds in the environment, and an environment in which both
  resource names are already set.
\<close>

definition failingSecretClient :: client where
  "failingSecretClient = \<lparr>LoadFromSecret = (\<lambda>key env. Inl (Failure ''secret unreachable'')),
     LoadFromConfigMap = (\<lambda>prefix key env. (None, env))\<rparr>"

definition failingConfigMapClient :: client where
  "failingConfigMapClient = \<lparr>LoadFromSecret = (\<lambda>key env. Inr Map.empty),
     LoadFromConfigMap = (\<lambda>prefix key env. (Some (Failure ''config map unreachable''), env))\<rparr>"

definition echoClient :: client where
  "echoClient = \<lparr>LoadFromSecret =
       (\<lambda>key env. case env key of None \<Rightarrow> Inl (Failure ''no secret name'')
                    | Some n \<Rightarrow> Inr [''name'' \<mapsto> n]),
     LoadFromConfigMap = (\<lambda>prefix key env. (None, env))\<rparr>"

definition staleEnv :: environ where
  "staleEnv = [''HOST_OPERATOR_SECRET_NAME'' \<mapsto> ''stale-secret'',
     ''HOST_OPERATOR_CONFIG_MAP_NAME'' \<mapsto> ''stale-config'']"

text \<open>
  A file that gives the excluded domains, and an environment that gives them.
\<close>

definition domainsFile :: "string \<Rightarrow> string \<Rightarrow> error + (string \<times> val) list" where
  "domainsFile t p = Inr [(''verification.excluded_email_domains'', VString ''redhat.com,ibm.com'')]"


text \<open>
  A file and an environment that both give the HTTP address.
\<close>

definition addressFile :: "string \<Rightarrow> string \<Rightarrow> error + (string \<times> val) list" where
  "addressFile t p = Inr [(''http.address'', VString ''10.0.0.1:80'')]"

definition addressEnv :: environ where
  "addressEnv = [''REGISTRATION_HTTP_ADDRESS'' \<mapsto> ''127.0.0.1:9090'']"

text \<open>
  An environment that sets a variable for the section "http" only, a file that gives the
  section "http" a scalar value, and a cluster with an empty secret and no config map.
\<close>

definition sectionEnv :: environ where
  "sectionEnv = [''REGISTRATION_HTTP'' \<mapsto> ''x'']"

definition sectionFile :: "string \<Rightarrow> string \<Rightarrow> error + (string \<times> val) list" where
  "sectionFile t p = Inr [(''http'', VString ''foo'')]"

definition plainClient :: client where
  "plainClient = \<lparr>LoadFromSecret = (\<lambda>key env. Inr Map.empty),
     LoadFromConfigMap = (\<lambda>prefix key env. (None, env))\<rparr>"

text \<open>A file in which "http.address" is a section.\<close>

definition nestedFile :: "string \<Rightarrow> string \<Rightarrow> error + (string \<times> val) list" where
  "nestedFile t p = Inr [(''http.address.port'', VInt 80)]"


section \<open>Facts about the library model and the construction\<close>

subsection \<open>Keys and defaults\<close>

lemmas var_defs = varHTTPAddress_def varHTTPIdleTimeout_def varHTTPCompressResponses_def
  varEnvironment_def varLogLevel_def varLogJSON_def varGracefulTimeout_def
  varHTTPWriteTimeout_def varHTTPReadTimeout_def varAuthClientLibraryURL_def
  varAuthClientConfigRaw_def varAuthClientConfigContentType_def
  varAuthClientPublicKeysURL_def varNamespace_def varVerificationEnabled_def
  varVerificationDailyLimit_def varVerificationAttemptsAllowed_def
  varVerificationMessageTemplate_def varVerificationExcludedEmailDomains_def
  varVerificationCodeExpiresInMin_def varWoopraDomain_def varSegmentWriteKey_def

lemma lower_keys:
  "strings_ToLower ''http.address'' = ''http.address''"
  "strings_ToLower ''http.idle_timeout'' = ''http.idle_timeout''"
  "strings_ToLower ''http.compress'' = ''http.compress''"
  "strings_ToLower ''environment'' = ''environment''"
  "strings_ToLower ''log.level'' = ''log.level''"
  "strings_ToLower ''log.json'' = ''log.json''"
  "strings_ToLower ''graceful_timeout'' = ''graceful_timeout''"
  "strings_ToLower ''http.write_timeout'' = ''http.write_timeout''"
  "strings_ToLower ''http.read_timeout'' = ''http.read_timeout''"
  "strings_ToLower ''auth_client.library_url'' = ''auth_client.library_url''"
  "strings_ToLower ''auth_client.config.raw'' = ''auth_client.config.raw''"
  "strings_ToLower ''auth_client.config.content_type'' = ''auth_client.config.content_type''"
  "strings_ToLower ''auth_client.public_keys_url'' = ''auth_client.public_keys_url''"
  "strings_ToLower ''namespace'' = ''namespace''"
  "strings_ToLower ''verification.enabled'' = ''verification.enabled''"
  "strings_ToLower ''verification.daily_limit'' = ''verification.daily_limit''"
  "strings_ToLower ''verification.attempts_allowed'' = ''verification.attempts_allowed''"
  "strings_ToLower ''verification.message_template'' = ''verification.message_template''"
  "strings_ToLower ''verification.excluded_email_domains'' = ''verification.excluded_email_domains''"
  "strings_ToLower ''verification.code_expires_in_min'' = ''verification.code_expires_in_min''"
  "strings_ToLower ''woopra.domain'' = ''woopra.domain''"
  "strings_ToLower ''segment.write_key'' = ''segment.write_key''"
  by (simp_all add: strings_ToLower_def lower_char_def)

lemma setConfigDefaults_defaults:
  "defaults vp = [] \<Longrightarrow> defaults (setConfigDefaults vp) = registeredDefaults"
  by (simp add: setConfigDefaults_def Let_def SetDefault_def SetTypeByDefaultValue_def
      registeredDefaults_def var_defs lower_keys)

lemma setConfigDefaults_fields:
  "envPrefix (setConfigDefaults vp) = envPrefix vp"
  "automaticEnvApplied (setConfigDefaults vp) = automaticEnvApplied vp"
  "envKeyReplacer (setConfigDefaults vp) = envKeyReplacer vp"
  "typeByDefValue (setConfigDefaults vp) = True"
  "config (setConfigDefaults vp) = config vp"
  "configType (setConfigDefaults vp) = configType vp"
  "configFile (setConfigDefaults vp) = configFile vp"
  by (simp_all add: setConfigDefaults_def Let_def SetDefault_def SetTypeByDefaultValue_def)

lemma initConfig_vreg:
  "vreg (initConfig cv secret env) =
     \<lparr>envPrefix = ''REGISTRATION'', automaticEnvApplied = True,
      envKeyReplacer = Some (CHR ''.'', CHR ''_''), typeByDefValue = True,
      configType = [], configFile = [], config = [], defaults = registeredDefaults\<rparr>"
  by (simp add: initConfig_def Let_def setConfigDefaults_fields setConfigDefaults_defaults
      viper_New_def SetEnvPrefix_def AutomaticEnv_def SetEnvKeyReplacer_def
      SetTypeByDefaultValue_def EnvPrefix_def)


subsection \<open>The three steps of the lookup\<close>

lemma find_env:
  "automaticEnvApplied vp \<Longrightarrow> getEnv vp env (mergeWithEnvPrefix vp k) = Some s \<Longrightarrow>
   viper_find vp env k = Some (VString s)"
  by (simp add: viper_find_def Let_def)

lemma find_file:
  "envSilent vp env k \<Longrightarrow> map_of (config vp) k = Some x \<Longrightarrow> viper_find vp env k = Some x"
  by (simp add: viper_find_def Let_def envSilent_def searchMap_def)

lemma find_default:
  "envSilent vp env k \<Longrightarrow> fileSilent vp k \<Longrightarrow> viper_find vp env k = searchMap (defaults vp) k"
  by (simp add: viper_find_def Let_def envSilent_def fileSilent_def)

subsection \<open>What a successful construction looks like\<close>

lemma LoadConfig_Inr:
  assumes "LoadConfig cv cl env = (Inr c, env')"
  shows "\<exists>secret. LoadFromSecret cl ''HOST_OPERATOR_SECRET_NAME''
            (os_Setenv ''HOST_OPERATOR_SECRET_NAME'' ''host-operator-secret'' env) = Inr secret \<and>
          c = initConfig cv secret env'"
  using assms
  by (auto simp: LoadConfig_def Let_def split: sum.splits prod.splits option.splits)

lemma New_Inr:
  assumes "New cv fs path cl env = (Inr c, env')"
  shows "\<exists>c0. LoadConfig cv cl env = (Inr c0, env') \<and> secretValues c = secretValues c0 \<and>
           (if path = [] then c = c0
            else \<exists>m. fs ''yaml'' path = Inr m \<and>
                   vreg c = (vreg c0)\<lparr>configType := ''yaml'', configFile := path, config := m\<rparr>)"
  using assms
  by (auto simp: New_def ReadInConfig_def SetConfigFile_def SetConfigType_def
      split: sum.splits prod.splits if_splits)

lemma New_vreg:
  assumes "New cv fs path cl env = (Inr c, env')"
  shows "vreg c =
     \<lparr>envPrefix = ''REGISTRATION'', automaticEnvApplied = True,
      envKeyReplacer = Some (CHR ''.'', CHR ''_''), typeByDefValue = True,
      configType = (if path = [] then [] else ''yaml''), configFile = path,
      config = (if path = [] then [] else projr (fs ''yaml'' path)),
      defaults = registeredDefaults\<rparr>"
proof -
  from New_Inr [OF assms] obtain c0 where
    l: "LoadConfig cv cl env = (Inr c0, env')" and
    r: "if path = [] then c = c0
        else \<exists>m. fs ''yaml'' path = Inr m \<and>
               vreg c = (vreg c0)\<lparr>configType := ''yaml'', configFile := path, config := m\<rparr>"
    by blast
  from LoadConfig_Inr [OF l] obtain secret where c0: "c0 = initConfig cv secret env'"
    by blast
  show ?thesis
  proof (cases "path = []")
    case True
    with r c0 show ?thesis by (simp add: initConfig_vreg)
  next
    case False
    with r obtain m where "fs ''yaml'' path = Inr m"
      "vreg c = (vreg c0)\<lparr>configType := ''yaml'', configFile := path, config := m\<rparr>"
      by auto
    with False c0 show ?thesis by (simp add: initConfig_vreg)
  qed
qed

subsection \<open>Reading a registry\<close>

lemma castAs_same [simp]: "castAs cv d d = d"
  by (cases d) (simp_all add: castAs_def)

lemma Get_silent:
  assumes "typeByDefValue vp" "envSilent vp env (strings_ToLower k)"
    "fileSilent vp (strings_ToLower k)"
  shows "Get cv vp env k = searchMap (defaults vp) (strings_ToLower k)"
  using assms by (simp add: Get_def Let_def find_default split: option.splits)

lemma envSilent_empty: "envSilent vp Map.empty k"
  by (simp add: envSilent_def getEnv_def os_LookupEnv_def isPathShadowedInAutoEnv_def)

lemma fileSilent_empty: "config vp = [] \<Longrightarrow> fileSilent vp k"
  by (simp add: fileSilent_def isPathShadowedInDeepMap_def searchMap_def isSection_def)

lemma defaults_lookup:
  "map_of registeredDefaults ''http.address'' = Some (VString DefaultHTTPAddress)"
  "map_of registeredDefaults ''http.compress'' = Some (VBool DefaultHTTPCompressResponses)"
  "map_of registeredDefaults ''http.write_timeout'' = Some (VDuration DefaultHTTPWriteTimeout)"
  "map_of registeredDefaults ''http.read_timeout'' = Some (VDuration DefaultHTTPReadTimeout)"
  "map_of registeredDefaults ''http.idle_timeout'' = Some (VDuration DefaultHTTPIdleTimeout)"
  "map_of registeredDefaults ''environment'' = Some (VString DefaultEnvironment)"
  "map_of registeredDefaults ''log.level'' = Some (VString DefaultLogLevel)"
  "map_of registeredDefaults ''log.json'' = Some (VBool DefaultLogJSON)"
  "map_of registeredDefaults ''graceful_timeout'' = Some (VDuration DefaultGracefulTimeout)"
  "map_of registeredDefaults ''auth_client.library_url'' = Some (VString DefaultAuthClientLibraryURL)"
  "map_of registeredDefaults ''auth_client.config.content_type'' =
     Some (VString DefaultAuthClientConfigContentType)"
  "map_of registeredDefaults ''auth_client.public_keys_url'' =
     Some (VString DefaultAuthClientPublicKeysURL)"
  "map_of registeredDefaults ''namespace'' = Some (VString DefaultNamespace)"
  "map_of registeredDefaults ''auth_client.config.raw'' = Some (VString DefaultAuthClientConfigRaw)"
  "map_of registeredDefaults ''verification.enabled'' = Some (VBool DefaultVerificationEnabled)"
  "map_of registeredDefaults ''verification.daily_limit'' = Some (VInt DefaultVerificationDailyLimit)"
  "map_of registeredDefaults ''verification.attempts_allowed'' =
     Some (VInt DefaultVerificationAttemptsAllowed)"
  "map_of registeredDefaults ''verification.message_template'' =
     Some (VString DefaultVerificationMessageTemplate)"
  "map_of registeredDefaults ''verification.code_expires_in_min'' =
     Some (VInt DefaultVerificationCodeExpiresInMin)"
  "map_of registeredDefaults ''verification.excluded_email_domains'' = None"
  "map_of registeredDefaults ''woopra.domain'' = None"
  "map_of registeredDefaults ''segment.write_key'' = None"
  by (simp_all add: registeredDefaults_def var_defs)

lemma defaults_search:
  "searchMap registeredDefaults ''http.address'' = Some (VString DefaultHTTPAddress)"
  "searchMap registeredDefaults ''http.compress'' = Some (VBool DefaultHTTPCompressResponses)"
  "searchMap registeredDefaults ''http.write_timeout'' = Some (VDuration DefaultHTTPWriteTimeout)"
  "searchMap registeredDefaults ''http.read_timeout'' = Some (VDuration DefaultHTTPReadTimeout)"
  "searchMap registeredDefaults ''http.idle_timeout'' = Some (VDuration DefaultHTTPIdleTimeout)"
  "searchMap registeredDefaults ''environment'' = Some (VString DefaultEnvironment)"
  "searchMap registeredDefaults ''log.level'' = Some (VString DefaultLogLevel)"
  "searchMap registeredDefaults ''log.json'' = Some (VBool DefaultLogJSON)"
  "searchMap registeredDefaults ''graceful_timeout'' = Some (VDuration DefaultGracefulTimeout)"
  "searchMap registeredDefaults ''auth_client.library_url'' = Some (VString DefaultAuthClientLibraryURL)"
  "searchMap registeredDefaults ''auth_client.config.content_type'' =
     Some (VString DefaultAuthClientConfigContentType)"
  "searchMap registeredDefaults ''auth_client.public_keys_url'' =
     Some (VString DefaultAuthClientPublicKeysURL)"
  "searchMap registeredDefaults ''namespace'' = Some (VString DefaultNamespace)"
  "searchMap registeredDefaults ''auth_client.config.raw'' = Some (VString DefaultAuthClientConfigRaw)"
  "searchMap registeredDefaults ''verification.enabled'' = Some (VBool DefaultVerificationEnabled)"
  "searchMap registeredDefaults ''verification.daily_limit'' = Some (VInt DefaultVerificationDailyLimit)"
  "searchMap registeredDefaults ''verification.attempts_allowed'' =
     Some (VInt DefaultVerificationAttemptsAllowed)"
  "searchMap registeredDefaults ''verification.message_template'' =
     Some (VString DefaultVerificationMessageTemplate)"
  "searchMap registeredDefaults ''verification.code_expires_in_min'' =
     Some (VInt DefaultVerificationCodeExpiresInMin)"
  "searchMap registeredDefaults ''verification.excluded_email_domains'' = None"
  "searchMap registeredDefaults ''woopra.domain'' = None"
  "searchMap registeredDefaults ''segment.write_key'' = None"
  by (simp_all add: searchMap_def defaults_lookup)
     (simp_all add: isSection_def registeredDefaults_def var_defs)

lemma searchMap_Some: "map_of m k = Some x \<Longrightarrow> searchMap m k = Some x"
  by (simp add: searchMap_def)

lemma searchMap_None: "(searchMap m k = None) = (map_of m k = None \<and> \<not> isSection m k)"
  by (simp add: searchMap_def split: option.splits)

lemma ToString_searchMap: "ToString cv (searchMap m k) = ToString cv (map_of m k)"
  by (simp add: searchMap_def split: option.splits)

subsection \<open>Construction from working loaders\<close>

lemma New_ok_nofile:
  assumes "LoadFromSecret cl ''HOST_OPERATOR_SECRET_NAME''
             (os_Setenv ''HOST_OPERATOR_SECRET_NAME'' ''host-operator-secret'' env) = Inr s"
    and "LoadFromConfigMap cl EnvPrefix ''HOST_OPERATOR_CONFIG_MAP_NAME''
           (os_Setenv ''HOST_OPERATOR_CONFIG_MAP_NAME'' ''host-operator-config''
             (os_Setenv ''HOST_OPERATOR_SECRET_NAME'' ''host-operator-secret'' env)) = (None, env3)"
  shows "New cv fs [] cl env = (Inr (initConfig cv s env3), env3)"
  using assms by (simp add: New_def LoadConfig_def Let_def)

lemma LoadConfig_ok:
  assumes "LoadFromSecret cl ''HOST_OPERATOR_SECRET_NAME''
             (os_Setenv ''HOST_OPERATOR_SECRET_NAME'' ''host-operator-secret'' env) = Inr s"
    and "LoadFromConfigMap cl EnvPrefix ''HOST_OPERATOR_CONFIG_MAP_NAME''
           (os_Setenv ''HOST_OPERATOR_CONFIG_MAP_NAME'' ''host-operator-config''
             (os_Setenv ''HOST_OPERATOR_SECRET_NAME'' ''host-operator-secret'' env)) = (None, env3)"
  shows "LoadConfig cv cl env = (Inr (initConfig cv s env3), env3)"
  using assms by (simp add: LoadConfig_def Let_def)

lemma New_ok_file:
  assumes "LoadConfig cv cl env = (Inr c0, env')" "path \<noteq> []" "fs ''yaml'' path = Inr m"
  shows "\<exists>c. New cv fs path cl env = (Inr c, env') \<and> secretValues c = secretValues c0 \<and>
           vreg c = (vreg c0)\<lparr>configType := ''yaml'', configFile := path, config := m\<rparr> \<and>
           excludedDomains c =
             (if GetString cv (vreg c) env' varVerificationExcludedEmailDomains \<noteq> []
              then strings_FieldsFunc
                     (GetString cv (vreg c) env' varVerificationExcludedEmailDomains) isComma
              else excludedDomains c0)"
  using assms
  by (simp add: New_def ReadInConfig_def SetConfigFile_def SetConfigType_def)

subsection \<open>The logged line\<close>

lemma foldl_WithValues:
  "foldl (\<lambda>lg key. WithValues lg key (g key)) lg0 keys =
     lg0\<lparr>loggerValues := loggerValues lg0 @ map (\<lambda>key. (key, g key)) keys\<rparr>"
  by (induction keys arbitrary: lg0) (simp_all add: WithValues_def)

lemma PrintConfig_line:
  "PrintConfig ord cv c env =
     \<lparr>lineLogger = ''configuration'',
      lineMessage = ''Registration service configuration variables:'',
      lineValues = map (\<lambda>key. (key, Get cv (vreg c) env key)) (AllKeys ord (vreg c))\<rparr>"
  by (simp add: PrintConfig_def Let_def foldl_WithValues Info_def log_def)

subsection \<open>Typed reads\<close>

lemma ToString_castAs: "ToString cv (Some (castAs cv (VString d) x)) = ToString cv (Some x)"
  by (simp add: castAs_def)

lemma ToBool_castAs: "ToBool cv (Some (castAs cv (VBool d) x)) = ToBool cv (Some x)"
  by (simp add: castAs_def)

lemma ToInt_castAs: "ToInt cv (Some (castAs cv (VInt d) x)) = ToInt cv (Some x)"
  by (simp add: castAs_def)

lemma ToDuration_castAs:
  "ToDuration cv (Some (castAs cv (VDuration d) x)) = ToDuration cv (Some x)"
  by (simp add: castAs_def)

lemma GetString_find:
  assumes "searchMap (defaults vp) (strings_ToLower k) = None \<or>
           (\<exists>d. searchMap (defaults vp) (strings_ToLower k) = Some (VString d))"
  shows "GetString cv vp env k = ToString cv (viper_find vp env (strings_ToLower k))"
  using assms
  by (auto simp: GetString_def Get_def Let_def ToString_castAs split: option.splits)

lemma GetBool_find:
  assumes "searchMap (defaults vp) (strings_ToLower k) = Some (VBool d)"
  shows "GetBool cv vp env k = ToBool cv (viper_find vp env (strings_ToLower k))"
  using assms
  by (auto simp: GetBool_def Get_def Let_def ToBool_castAs split: option.splits)

lemma GetInt_find:
  assumes "searchMap (defaults vp) (strings_ToLower k) = Some (VInt d)"
  shows "GetInt cv vp env k = ToInt cv (viper_find vp env (strings_ToLower k))"
  using assms
  by (auto simp: GetInt_def Get_def Let_def ToInt_castAs split: option.splits)

lemma GetDuration_find:
  assumes "searchMap (defaults vp) (strings_ToLower k) = Some (VDuration d)"
  shows "GetDuration cv vp env k = ToDuration cv (viper_find vp env (strings_ToLower k))"
  using assms
  by (auto simp: GetDuration_def Get_def Let_def ToDuration_castAs split: option.splits)

subsection \<open>The excluded domains\<close>

text \<open>
  The fields of \<open>strings.FieldsFunc\<close> are not empty and hold no separator, and together
  they are the string without its separators.
\<close>

lemma fieldsFrom_concat: "concat (fieldsFrom f cur s) = cur @ filter (\<lambda>c. \<not> f c) s"
  by (induction s arbitrary: cur) auto

lemma fieldsFrom_fields:
  "\<forall>c \<in> set cur. \<not> f c \<Longrightarrow> x \<in> set (fieldsFrom f cur s) \<Longrightarrow>
   x \<noteq> [] \<and> (\<forall>c \<in> set x. \<not> f c)"
proof (induction s arbitrary: cur)
  case Nil
  then show ?case by (auto split: if_splits)
next
  case (Cons a s)
  show ?case
  proof (cases "f a")
    case True
    with Cons.prems have "x = cur \<and> cur \<noteq> [] \<or> x \<in> set (fieldsFrom f [] s)"
      by (auto split: if_splits)
    with Cons.IH [of "[]"] Cons.prems(1) show ?thesis by auto
  next
    case False
    with Cons.prems have "x \<in> set (fieldsFrom f (cur @ [a]) s)" by simp
    with Cons.IH [of "cur @ [a]"] Cons.prems(1) False show ?thesis by auto
  qed
qed

lemma FieldsFunc_no_separator:
  "x \<in> set (strings_FieldsFunc s f) \<Longrightarrow> x \<noteq> [] \<and> (\<forall>c \<in> set x. \<not> f c)"
  using fieldsFrom_fields [of "[]" f x s] by (simp add: strings_FieldsFunc_def)

lemma FieldsFunc_concat: "concat (strings_FieldsFunc s f) = filter (\<lambda>c. \<not> f c) s"
  by (simp add: strings_FieldsFunc_def fieldsFrom_concat)

text \<open>The excluded-domains string of a registry without a default for the key.\<close>

lemma excluded_string:
  assumes "automaticEnvApplied vp" "searchMap (defaults vp) ''verification.excluded_email_domains'' = None"
  shows "GetString cv vp env varVerificationExcludedEmailDomains =
     (case getEnv vp env (mergeWithEnvPrefix vp ''verification.excluded_email_domains'') of
        Some s \<Rightarrow> s
      | None \<Rightarrow>
          if isPathShadowedInAutoEnv vp env [''verification'', ''excluded_email_domains''] \<noteq> []
          then []
          else ToString cv (map_of (config vp) ''verification.excluded_email_domains''))"
proof -
  have sp: "strings_Split ''verification.excluded_email_domains'' (CHR ''.'') =
      [''verification'', ''excluded_email_domains'']"
    by (simp add: strings_Split_def)
  have "GetString cv vp env varVerificationExcludedEmailDomains =
      ToString cv (viper_find vp env ''verification.excluded_email_domains'')"
    using assms(2)
    by (simp add: GetString_find varVerificationExcludedEmailDomains_def lower_keys)
  moreover have "viper_find vp env ''verification.excluded_email_domains'' =
     (case getEnv vp env (mergeWithEnvPrefix vp ''verification.excluded_email_domains'') of
        Some s \<Rightarrow> Some (VString s)
      | None \<Rightarrow>
          if isPathShadowedInAutoEnv vp env [''verification'', ''excluded_email_domains''] \<noteq> []
          then None
          else searchMap (config vp) ''verification.excluded_email_domains'')"
    using assms
    by (auto simp: viper_find_def Let_def sp split: option.splits)
  ultimately show ?thesis
    by (simp add: ToString_searchMap split: option.splits)
qed

lemma getEnv_nonempty: "getEnv vp env k = Some s \<Longrightarrow> s \<noteq> []"
  by (auto simp: getEnv_def Let_def split: option.splits if_splits)

lemma FieldsFunc_empty: "strings_FieldsFunc [] f = []"
  by (simp add: strings_FieldsFunc_def)

lemma FieldsFunc_example:
  "strings_FieldsFunc ''redhat.com,ibm.com'' isComma = [''redhat.com'', ''ibm.com'']"
  by (simp add: strings_FieldsFunc_def isComma_def)

lemma initConfig_excluded:
  "excludedDomains (initConfig cv secret env) =
     strings_FieldsFunc
       (GetString cv (vreg (initConfig cv secret env)) env varVerificationExcludedEmailDomains)
       isComma"
  by (simp add: initConfig_def Let_def)

text \<open>After construction the list is the split of the current string.\<close>

lemma New_excluded:
  assumes "New cv fs path cl env = (Inr c, env')"
  shows "excludedDomains c =
     strings_FieldsFunc (GetString cv (vreg c) env' varVerificationExcludedEmailDomains) isComma"
proof -
  from New_Inr [OF assms] obtain c0 where
    l: "LoadConfig cv cl env = (Inr c0, env')" and
    r: "if path = [] then c = c0
        else \<exists>m. fs ''yaml'' path = Inr m \<and>
               vreg c = (vreg c0)\<lparr>configType := ''yaml'', configFile := path, config := m\<rparr>"
    by blast
  from LoadConfig_Inr [OF l] obtain secret where c0: "c0 = initConfig cv secret env'"
    by blast
  show ?thesis
  proof (cases "path = []")
    case True
    with r c0 show ?thesis by (simp add: initConfig_excluded)
  next
    case False
    with r obtain m where m: "fs ''yaml'' path = Inr m" by auto
    from New_ok_file [where fs = fs, OF l False m] assms
    have e: "excludedDomains c =
             (if GetString cv (vreg c) env' varVerificationExcludedEmailDomains \<noteq> []
              then strings_FieldsFunc
                     (GetString cv (vreg c) env' varVerificationExcludedEmailDomains) isComma
              else excludedDomains c0)"
      by auto
    show ?thesis
    proof (cases "GetString cv (vreg c) env' varVerificationExcludedEmailDomains = []")
      case False
      with e show ?thesis by simp
    next
      case True
      have v: "vreg c = \<lparr>envPrefix = ''REGISTRATION'', automaticEnvApplied = True,
          envKeyReplacer = Some (CHR ''.'', CHR ''_''), typeByDefValue = True,
          configType = (if path = [] then [] else ''yaml''), configFile = path,
          config = (if path = [] then [] else projr (fs ''yaml'' path)),
          defaults = registeredDefaults\<rparr>"
        by (rule New_vreg [OF assms])
      have g: "getEnv (vreg c) env'
          (mergeWithEnvPrefix (vreg c) ''verification.excluded_email_domains'') = None"
      proof (cases "getEnv (vreg c) env'
          (mergeWithEnvPrefix (vreg c) ''verification.excluded_email_domains'')")
        case None then show ?thesis .
      next
        case (Some s)
        then have "GetString cv (vreg c) env' varVerificationExcludedEmailDomains = s"
          by (simp add: excluded_string v defaults_lookup defaults_search)
        with True Some getEnv_nonempty show ?thesis by fastforce
      qed
      have g0: "getEnv (vreg c0) env'
          (mergeWithEnvPrefix (vreg c0) ''verification.excluded_email_domains'') = None"
        using g by (simp add: v c0 initConfig_vreg getEnv_def mergeWithEnvPrefix_def)
      have "GetString cv (vreg c0) env' varVerificationExcludedEmailDomains = []"
        using g0 by (simp add: excluded_string c0 initConfig_vreg defaults_lookup defaults_search)
      with True e c0 show ?thesis by (simp add: initConfig_excluded)
    qed
  qed
qed

subsection \<open>Names of the bound variables\<close>

lemma getEnv_registry:
  assumes "envPrefix vp = ''REGISTRATION''" "envKeyReplacer vp = Some (CHR ''.'', CHR ''_'')"
  shows "getEnv vp env (mergeWithEnvPrefix vp k) =
     (case env (Replace (CHR ''.'', CHR ''_'') (strings_ToUpper (''REGISTRATION_'' @ k))) of
        None \<Rightarrow> None
      | Some s \<Rightarrow> if s \<noteq> [] then Some s else None)"
  using assms by (simp add: getEnv_def mergeWithEnvPrefix_def os_LookupEnv_def)

lemma bound_names:
  "Replace (CHR ''.'', CHR ''_'') (strings_ToUpper ''REGISTRATION_http.address'') =
     ''REGISTRATION_HTTP_ADDRESS''"
  "Replace (CHR ''.'', CHR ''_'') (strings_ToUpper ''REGISTRATION_http.idle_timeout'') =
     ''REGISTRATION_HTTP_IDLE_TIMEOUT''"
  "Replace (CHR ''.'', CHR ''_'') (strings_ToUpper ''REGISTRATION_http.compress'') =
     ''REGISTRATION_HTTP_COMPRESS''"
  "Replace (CHR ''.'', CHR ''_'') (strings_ToUpper ''REGISTRATION_environment'') =
     ''REGISTRATION_ENVIRONMENT''"
  "Replace (CHR ''.'', CHR ''_'') (strings_ToUpper ''REGISTRATION_log.level'') =
     ''REGISTRATION_LOG_LEVEL''"
  "Replace (CHR ''.'', CHR ''_'') (strings_ToUpper ''REGISTRATION_log.json'') =
     ''REGISTRATION_LOG_JSON''"
  "Replace (CHR ''.'', CHR ''_'') (strings_ToUpper ''REGISTRATION_graceful_timeout'') =
     ''REGISTRATION_GRACEFUL_TIMEOUT''"
  "Replace (CHR ''.'', CHR ''_'') (strings_ToUpper ''REGISTRATION_http.write_timeout'') =
     ''REGISTRATION_HTTP_WRITE_TIMEOUT''"
  "Replace (CHR ''.'', CHR ''_'') (strings_ToUpper ''REGISTRATION_http.read_timeout'') =
     ''REGISTRATION_HTTP_READ_TIMEOUT''"
  "Replace (CHR ''.'', CHR ''_'') (strings_ToUpper ''REGISTRATION_auth_client.library_url'') =
     ''REGISTRATION_AUTH_CLIENT_LIBRARY_URL''"
  "Replace (CHR ''.'', CHR ''_'') (strings_ToUpper ''REGISTRATION_auth_client.config.raw'') =
     ''REGISTRATION_AUTH_CLIENT_CONFIG_RAW''"
  "Replace (CHR ''.'', CHR ''_'') (strings_ToUpper ''REGISTRATION_auth_client.config.content_type'') =
     ''REGISTRATION_AUTH_CLIENT_CONFIG_CONTENT_TYPE''"
  "Replace (CHR ''.'', CHR ''_'') (strings_ToUpper ''REGISTRATION_auth_client.public_keys_url'') =
     ''REGISTRATION_AUTH_CLIENT_PUBLIC_KEYS_URL''"
  "Replace (CHR ''.'', CHR ''_'') (strings_ToUpper ''REGISTRATION_namespace'') =
     ''REGISTRATION_NAMESPACE''"
  "Replace (CHR ''.'', CHR ''_'') (strings_ToUpper ''REGISTRATION_verification.enabled'') =
     ''REGISTRATION_VERIFICATION_ENABLED''"
  "Replace (CHR ''.'', CHR ''_'') (strings_ToUpper ''REGISTRATION_verification.daily_limit'') =
     ''REGISTRATION_VERIFICATION_DAILY_LIMIT''"
  "Replace (CHR ''.'', CHR ''_'') (strings_ToUpper ''REGISTRATION_verification.attempts_allowed'') =
     ''REGISTRATION_VERIFICATION_ATTEMPTS_ALLOWED''"
  "Replace (CHR ''.'', CHR ''_'') (strings_ToUpper ''REGISTRATION_verification.message_template'') =
     ''REGISTRATION_VERIFICATION_MESSAGE_TEMPLATE''"
  "Replace (CHR ''.'', CHR ''_'') (strings_ToUpper ''REGISTRATION_verification.excluded_email_domains'') =
     ''REGISTRATION_VERIFICATION_EXCLUDED_EMAIL_DOMAINS''"
  "Replace (CHR ''.'', CHR ''_'') (strings_ToUpper ''REGISTRATION_verification.code_expires_in_min'') =
     ''REGISTRATION_VERIFICATION_CODE_EXPIRES_IN_MIN''"
  "Replace (CHR ''.'', CHR ''_'') (strings_ToUpper ''REGISTRATION_woopra.domain'') =
     ''REGISTRATION_WOOPRA_DOMAIN''"
  "Replace (CHR ''.'', CHR ''_'') (strings_ToUpper ''REGISTRATION_segment.write_key'') =
     ''REGISTRATION_SEGMENT_WRITE_KEY''"
  "Replace (CHR ''.'', CHR ''_'') (strings_ToUpper ''REGISTRATION_http'') =
     ''REGISTRATION_HTTP''"
  "Replace (CHR ''.'', CHR ''_'') (strings_ToUpper ''REGISTRATION_log'') =
     ''REGISTRATION_LOG''"
  "Replace (CHR ''.'', CHR ''_'') (strings_ToUpper ''REGISTRATION_auth_client'') =
     ''REGISTRATION_AUTH_CLIENT''"
  "Replace (CHR ''.'', CHR ''_'') (strings_ToUpper ''REGISTRATION_auth_client.config'') =
     ''REGISTRATION_AUTH_CLIENT_CONFIG''"
  "Replace (CHR ''.'', CHR ''_'') (strings_ToUpper ''REGISTRATION_verification'') =
     ''REGISTRATION_VERIFICATION''"
  "Replace (CHR ''.'', CHR ''_'') (strings_ToUpper ''REGISTRATION_woopra'') =
     ''REGISTRATION_WOOPRA''"
  "Replace (CHR ''.'', CHR ''_'') (strings_ToUpper ''REGISTRATION_segment'') =
     ''REGISTRATION_SEGMENT''"
  by (simp_all add: Replace_def strings_ToUpper_def upper_char_def)

lemma parents_excluded:
  "parentKeys [''verification'', ''excluded_email_domains''] = [''verification'']"
  by (simp add: parentKeys_def)

subsection \<open>Example runs and reads at the defaults\<close>

text \<open>The runs used in the examples.\<close>

lemma run_domainsFile:
  "\<exists>c. New noCasts domainsFile ''config.yaml'' twilioClient Map.empty =
     (Inr c, [''HOST_OPERATOR_SECRET_NAME'' \<mapsto> ''host-operator-secret'',
              ''HOST_OPERATOR_CONFIG_MAP_NAME'' \<mapsto> ''host-operator-config''])"
proof -
  have l: "LoadConfig noCasts twilioClient Map.empty =
    (Inr (initConfig noCasts twilioSecret
       [''HOST_OPERATOR_SECRET_NAME'' \<mapsto> ''host-operator-secret'',
        ''HOST_OPERATOR_CONFIG_MAP_NAME'' \<mapsto> ''host-operator-config'']),
     [''HOST_OPERATOR_SECRET_NAME'' \<mapsto> ''host-operator-secret'',
      ''HOST_OPERATOR_CONFIG_MAP_NAME'' \<mapsto> ''host-operator-config''])"
    by (simp add: LoadConfig_ok twilioClient_def os_Setenv_def)
  show ?thesis
    using New_ok_file [where fs = domainsFile and path = "''config.yaml''", OF l]
    by (auto simp: domainsFile_def)
qed

lemma GetString_default:
  assumes "envSilent vp env (strings_ToLower k)" "fileSilent vp (strings_ToLower k)"
    "searchMap (defaults vp) (strings_ToLower k) = Some (VString d)"
  shows "GetString cv vp env k = d"
  using assms by (simp add: GetString_find find_default)

lemma GetString_nodefault:
  assumes "envSilent vp env (strings_ToLower k)" "fileSilent vp (strings_ToLower k)"
    "searchMap (defaults vp) (strings_ToLower k) = None"
  shows "GetString cv vp env k = []"
  using assms by (simp add: GetString_find find_default)

lemma GetBool_default:
  assumes "envSilent vp env (strings_ToLower k)" "fileSilent vp (strings_ToLower k)"
    "searchMap (defaults vp) (strings_ToLower k) = Some (VBool d)"
  shows "GetBool cv vp env k = d"
  using assms by (simp add: GetBool_find find_default)

lemma GetInt_default:
  assumes "envSilent vp env (strings_ToLower k)" "fileSilent vp (strings_ToLower k)"
    "searchMap (defaults vp) (strings_ToLower k) = Some (VInt d)"
  shows "GetInt cv vp env k = d"
  using assms by (simp add: GetInt_find find_default)

lemma GetDuration_default:
  assumes "envSilent vp env (strings_ToLower k)" "fileSilent vp (strings_ToLower k)"
    "searchMap (defaults vp) (strings_ToLower k) = Some (VDuration d)"
  shows "GetDuration cv vp env k = d"
  using assms by (simp add: GetDuration_find find_default)

lemmas keys_defs = recognizedKeys_def stringKeys_def boolKeys_def intKeys_def durationKeys_def

lemmas default_defs = DefaultHTTPAddress_def DefaultHTTPIdleTimeout_def
  DefaultHTTPCompressResponses_def DefaultEnvironment_def DefaultLogLevel_def
  DefaultLogJSON_def DefaultGracefulTimeout_def DefaultHTTPWriteTimeout_def
  DefaultHTTPReadTimeout_def DefaultAuthClientLibraryURL_def
  DefaultAuthClientConfigContentType_def DefaultAuthClientPublicKeysURL_def
  DefaultNamespace_def DefaultVerificationEnabled_def DefaultVerificationDailyLimit_def
  DefaultVerificationAttemptsAllowed_def DefaultVerificationMessageTemplate_def
  DefaultVerificationCodeExpiresInMin_def Second_def

lemma ToUpper_append: "strings_ToUpper (a @ b) = strings_ToUpper a @ strings_ToUpper b"
  by (simp add: strings_ToUpper_def)

lemma Replace_append: "Replace r (a @ b) = Replace r a @ Replace r b"
  by (simp add: Replace_def)

lemma prefix_name:
  "Replace (CHR ''.'', CHR ''_'') (strings_ToUpper (''REGISTRATION_'' @ k)) =
     ''REGISTRATION_'' @ Replace (CHR ''.'', CHR ''_'') (strings_ToUpper k)"
proof -
  have "Replace (CHR ''.'', CHR ''_'') (strings_ToUpper ''REGISTRATION_'') = ''REGISTRATION_''"
    by (simp add: Replace_def strings_ToUpper_def upper_char_def)
  then show ?thesis
    by (simp only: ToUpper_append Replace_append)
qed

lemma envSilent_no_prefixed:
  assumes "envPrefix vp = ''REGISTRATION''" "envKeyReplacer vp = Some (CHR ''.'', CHR ''_'')"
    and "\<And>x. env (''REGISTRATION_'' @ x) = None"
  shows "envSilent vp env k"
proof -
  have "getEnv vp env (mergeWithEnvPrefix vp p) = None" for p
    unfolding getEnv_registry [OF assms(1,2)] prefix_name
    by (simp only: assms(3) option.case)
  then show ?thesis
    by (simp add: envSilent_def isPathShadowedInAutoEnv_def)
qed

lemma run_noFiles:
  "New noCasts noFiles [] twilioClient Map.empty =
     (Inr (initConfig noCasts twilioSecret
        [''HOST_OPERATOR_SECRET_NAME'' \<mapsto> ''host-operator-secret'',
         ''HOST_OPERATOR_CONFIG_MAP_NAME'' \<mapsto> ''host-operator-config'']),
      [''HOST_OPERATOR_SECRET_NAME'' \<mapsto> ''host-operator-secret'',
       ''HOST_OPERATOR_CONFIG_MAP_NAME'' \<mapsto> ''host-operator-config''])"
  by (simp add: New_ok_nofile twilioClient_def os_Setenv_def)

lemma GetString_env:
  assumes "automaticEnvApplied vp"
    "getEnv vp env (mergeWithEnvPrefix vp (strings_ToLower k)) = Some s"
    "searchMap (defaults vp) (strings_ToLower k) = None \<or>
       (\<exists>d. searchMap (defaults vp) (strings_ToLower k) = Some (VString d))"
  shows "GetString cv vp env k = s"
  using assms by (simp add: GetString_find find_env)

lemma run_address:
  "\<exists>c. New noCasts addressFile ''config.yaml'' twilioClient addressEnv =
     (Inr c, addressEnv(''HOST_OPERATOR_SECRET_NAME'' \<mapsto> ''host-operator-secret'',
              ''HOST_OPERATOR_CONFIG_MAP_NAME'' \<mapsto> ''host-operator-config''))"
proof -
  have l: "LoadConfig noCasts twilioClient addressEnv =
    (Inr (initConfig noCasts twilioSecret
       (addressEnv(''HOST_OPERATOR_SECRET_NAME'' \<mapsto> ''host-operator-secret'',
        ''HOST_OPERATOR_CONFIG_MAP_NAME'' \<mapsto> ''host-operator-config''))),
     addressEnv(''HOST_OPERATOR_SECRET_NAME'' \<mapsto> ''host-operator-secret'',
      ''HOST_OPERATOR_CONFIG_MAP_NAME'' \<mapsto> ''host-operator-config''))"
    by (simp add: LoadConfig_ok twilioClient_def os_Setenv_def)
  show ?thesis
    using New_ok_file [where fs = addressFile and path = "''config.yaml''", OF l]
    by (auto simp: addressFile_def)
qed

lemma run_address_file_only:
  "\<exists>c. New noCasts addressFile ''config.yaml'' twilioClient Map.empty =
     (Inr c, [''HOST_OPERATOR_SECRET_NAME'' \<mapsto> ''host-operator-secret'',
              ''HOST_OPERATOR_CONFIG_MAP_NAME'' \<mapsto> ''host-operator-config''])"
proof -
  have l: "LoadConfig noCasts twilioClient Map.empty =
    (Inr (initConfig noCasts twilioSecret
       [''HOST_OPERATOR_SECRET_NAME'' \<mapsto> ''host-operator-secret'',
        ''HOST_OPERATOR_CONFIG_MAP_NAME'' \<mapsto> ''host-operator-config'']),
     [''HOST_OPERATOR_SECRET_NAME'' \<mapsto> ''host-operator-secret'',
      ''HOST_OPERATOR_CONFIG_MAP_NAME'' \<mapsto> ''host-operator-config''])"
    by (simp add: LoadConfig_ok twilioClient_def os_Setenv_def)
  show ?thesis
    using New_ok_file [where fs = addressFile and path = "''config.yaml''", OF l]
    by (auto simp: addressFile_def)
qed

lemmas accessor_defs =
  GetHTTPAddress_def GetHTTPCompressResponses_def GetHTTPWriteTimeout_def
  GetHTTPReadTimeout_def GetHTTPIdleTimeout_def GetEnvironment_def GetLogLevel_def
  IsLogJSON_def GetGracefulTimeout_def GetAuthClientLibraryURL_def
  GetAuthClientConfigAuthContentType_def GetAuthClientConfigAuthRaw_def
  GetAuthClientPublicKeysURL_def GetNamespace_def GetVerificationEnabled_def
  GetVerificationDailyLimit_def GetVerificationAttemptsAllowed_def
  GetVerificationMessageTemplate_def GetVerificationCodeExpiresInMin_def GetWoopraDomain_def
  GetSegmentWriteKey_def

subsection \<open>Hidden keys and the whole lookup\<close>

lemma first_match_empty:
  assumes "[] \<notin> set ps"
  shows "((case filter P ps of [] \<Rightarrow> [] | p # qs \<Rightarrow> p) = []) = (\<forall>p \<in> set ps. \<not> P p)"
proof (cases "filter P ps")
  case Nil
  then show ?thesis by (simp add: filter_empty_conv)
next
  case (Cons p qs)
  then have "p \<in> set (filter P ps)" by simp
  then have "p \<in> set ps" "P p" by simp_all
  with assms Cons show ?thesis by auto
qed

lemma parentKeys_nested: "parentKeys path \<noteq> [] \<Longrightarrow> length path > 1"
  by (cases "length path > 1") (simp_all add: parentKeys_def)

lemma shadowed_env_nested:
  "isPathShadowedInAutoEnv vp env path \<noteq> [] \<Longrightarrow> length path > 1"
  by (rule parentKeys_nested) (auto simp: isPathShadowedInAutoEnv_def split: list.splits)

lemma shadowed_file_nested:
  "isPathShadowedInDeepMap path m \<noteq> [] \<Longrightarrow> length path > 1"
  by (rule parentKeys_nested) (auto simp: isPathShadowedInDeepMap_def split: list.splits)

lemma find_env_hidden:
  assumes "automaticEnvApplied vp" "getEnv vp env (mergeWithEnvPrefix vp k) = None"
    "isPathShadowedInAutoEnv vp env (strings_Split k (CHR ''.'')) \<noteq> []"
  shows "viper_find vp env k = None"
  using assms shadowed_env_nested [OF assms(3)] by (simp add: viper_find_def Let_def)

lemma find_file_hidden:
  assumes "envSilent vp env k" "searchMap (config vp) k = None"
    "isPathShadowedInDeepMap (strings_Split k (CHR ''.'')) (config vp) \<noteq> []"
  shows "viper_find vp env k = None"
  using assms shadowed_file_nested [OF assms(3)]
  by (simp add: viper_find_def Let_def envSilent_def)

lemma parents_table:
  "parentKeys (strings_Split ''http.address'' (CHR ''.'')) = [''http'']"
  "parentKeys (strings_Split ''http.idle_timeout'' (CHR ''.'')) = [''http'']"
  "parentKeys (strings_Split ''http.compress'' (CHR ''.'')) = [''http'']"
  "parentKeys (strings_Split ''environment'' (CHR ''.'')) = []"
  "parentKeys (strings_Split ''log.level'' (CHR ''.'')) = [''log'']"
  "parentKeys (strings_Split ''log.json'' (CHR ''.'')) = [''log'']"
  "parentKeys (strings_Split ''graceful_timeout'' (CHR ''.'')) = []"
  "parentKeys (strings_Split ''http.write_timeout'' (CHR ''.'')) = [''http'']"
  "parentKeys (strings_Split ''http.read_timeout'' (CHR ''.'')) = [''http'']"
  "parentKeys (strings_Split ''auth_client.library_url'' (CHR ''.'')) = [''auth_client'']"
  "parentKeys (strings_Split ''auth_client.config.raw'' (CHR ''.'')) = [''auth_client'', ''auth_client.config'']"
  "parentKeys (strings_Split ''auth_client.config.content_type'' (CHR ''.'')) = [''auth_client'', ''auth_client.config'']"
  "parentKeys (strings_Split ''auth_client.public_keys_url'' (CHR ''.'')) = [''auth_client'']"
  "parentKeys (strings_Split ''namespace'' (CHR ''.'')) = []"
  "parentKeys (strings_Split ''verification.enabled'' (CHR ''.'')) = [''verification'']"
  "parentKeys (strings_Split ''verification.daily_limit'' (CHR ''.'')) = [''verification'']"
  "parentKeys (strings_Split ''verification.attempts_allowed'' (CHR ''.'')) = [''verification'']"
  "parentKeys (strings_Split ''verification.message_template'' (CHR ''.'')) = [''verification'']"
  "parentKeys (strings_Split ''verification.excluded_email_domains'' (CHR ''.'')) = [''verification'']"
  "parentKeys (strings_Split ''verification.code_expires_in_min'' (CHR ''.'')) = [''verification'']"
  "parentKeys (strings_Split ''woopra.domain'' (CHR ''.'')) = [''woopra'']"
  "parentKeys (strings_Split ''segment.write_key'' (CHR ''.'')) = [''segment'']"
  by (simp_all add: parentKeys_def strings_Split_def upt_rec)

lemma recognized_parents:
  "k \<in> set recognizedKeys \<Longrightarrow> [] \<notin> set (parentKeys (strings_Split k (CHR ''.'')))"
  by (auto simp: keys_defs var_defs parents_table)

lemma recognized_defaults:
  "k \<in> set recognizedKeys \<Longrightarrow> searchMap registeredDefaults k = map_of registeredDefaults k"
  by (auto simp: keys_defs var_defs defaults_search defaults_lookup)

lemma envSilent_iff:
  assumes "[] \<notin> set (parentKeys (strings_Split k (CHR ''.'')))"
  shows "envSilent vp env k =
     (\<forall>p \<in> set (k # parentKeys (strings_Split k (CHR ''.''))).
        getEnv vp env (mergeWithEnvPrefix vp p) = None)"
  by (simp add: envSilent_def isPathShadowedInAutoEnv_def first_match_empty [OF assms])

lemma fileSilent_iff:
  assumes "[] \<notin> set (parentKeys (strings_Split k (CHR ''.'')))"
  shows "fileSilent vp k =
     (\<not> isSection (config vp) k \<and>
      (\<forall>p \<in> set (k # parentKeys (strings_Split k (CHR ''.''))). map_of (config vp) p = None))"
  by (auto simp: fileSilent_def isPathShadowedInDeepMap_def first_match_empty [OF assms]
      searchMap_None)


lemma shadowed_env_iff:
  assumes "[] \<notin> set (parentKeys path)"
  shows "(isPathShadowedInAutoEnv vp env path \<noteq> []) =
     (\<exists>p \<in> set (parentKeys path). getEnv vp env (mergeWithEnvPrefix vp p) \<noteq> None)"
  using first_match_empty [OF assms, of "\<lambda>p. getEnv vp env (mergeWithEnvPrefix vp p) \<noteq> None"]
  by (auto simp: isPathShadowedInAutoEnv_def)

lemma shadowed_file_iff:
  assumes "[] \<notin> set (parentKeys path)"
  shows "(isPathShadowedInDeepMap path m \<noteq> []) =
     (\<exists>p \<in> set (parentKeys path). map_of m p \<noteq> None)"
  using first_match_empty [OF assms, of "\<lambda>p. map_of m p \<noteq> None"]
  by (auto simp: isPathShadowedInDeepMap_def)

lemma find_total:
  assumes a: "automaticEnvApplied vp"
    and np: "[] \<notin> set (parentKeys (strings_Split k (CHR ''.'')))"
  shows "viper_find vp env k =
     (case getEnv vp env (mergeWithEnvPrefix vp k) of
        Some s \<Rightarrow> Some (VString s)
      | None \<Rightarrow>
          if \<exists>p \<in> set (parentKeys (strings_Split k (CHR ''.''))).
               getEnv vp env (mergeWithEnvPrefix vp p) \<noteq> None
          then None
          else (case searchMap (config vp) k of
                  Some x \<Rightarrow> Some x
                | None \<Rightarrow>
                    if \<exists>p \<in> set (parentKeys (strings_Split k (CHR ''.''))).
                         map_of (config vp) p \<noteq> None
                    then None
                    else searchMap (defaults vp) k))"
proof (cases "getEnv vp env (mergeWithEnvPrefix vp k)")
  case (Some s)
  then show ?thesis by (simp add: find_env [OF a])
next
  case None
  show ?thesis
  proof (cases "isPathShadowedInAutoEnv vp env (strings_Split k (CHR ''.'')) = []")
    case False
    with None show ?thesis
      using find_env_hidden [OF a None False] shadowed_env_iff [OF np, of vp env] by simp
  next
    case True
    with None have es: "envSilent vp env k" by (simp add: envSilent_def)
    from True have ne: "\<not> (\<exists>p \<in> set (parentKeys (strings_Split k (CHR ''.''))).
               getEnv vp env (mergeWithEnvPrefix vp p) \<noteq> None)"
      using shadowed_env_iff [OF np, of vp env] by simp
    show ?thesis
    proof (cases "searchMap (config vp) k")
      case (Some x)
      with None ne es show ?thesis by (simp add: viper_find_def Let_def envSilent_def)
    next
      case none: None
      show ?thesis
      proof (cases "isPathShadowedInDeepMap (strings_Split k (CHR ''.'')) (config vp) = []")
        case False
        with None ne none show ?thesis
          using find_file_hidden [OF es none False] shadowed_file_iff [OF np, of "config vp"]
          by simp
      next
        case t: True
        with none have fs: "fileSilent vp k" by (simp add: fileSilent_def)
        from t have nf: "\<not> (\<exists>p \<in> set (parentKeys (strings_Split k (CHR ''.''))).
                         map_of (config vp) p \<noteq> None)"
          using shadowed_file_iff [OF np, of "config vp"] by simp
        from None ne none nf show ?thesis by (simp add: find_default [OF es fs])
      qed
    qed
  qed
qed

subsection \<open>Runs with a section in the environment or in the file\<close>

lemma run_sectionEnv:
  "New noCasts noFiles [] twilioClient sectionEnv =
     (Inr (initConfig noCasts twilioSecret
        (sectionEnv(''HOST_OPERATOR_SECRET_NAME'' \<mapsto> ''host-operator-secret'',
         ''HOST_OPERATOR_CONFIG_MAP_NAME'' \<mapsto> ''host-operator-config''))),
      sectionEnv(''HOST_OPERATOR_SECRET_NAME'' \<mapsto> ''host-operator-secret'',
       ''HOST_OPERATOR_CONFIG_MAP_NAME'' \<mapsto> ''host-operator-config''))"
  by (simp add: New_ok_nofile twilioClient_def os_Setenv_def)

lemma run_sectionFile:
  "\<exists>c. New noCasts sectionFile ''config.yaml'' twilioClient Map.empty =
     (Inr c, [''HOST_OPERATOR_SECRET_NAME'' \<mapsto> ''host-operator-secret'',
              ''HOST_OPERATOR_CONFIG_MAP_NAME'' \<mapsto> ''host-operator-config'']) \<and>
     secretValues c = twilioSecret"
proof -
  have l: "LoadConfig noCasts twilioClient Map.empty =
    (Inr (initConfig noCasts twilioSecret
       [''HOST_OPERATOR_SECRET_NAME'' \<mapsto> ''host-operator-secret'',
        ''HOST_OPERATOR_CONFIG_MAP_NAME'' \<mapsto> ''host-operator-config'']),
     [''HOST_OPERATOR_SECRET_NAME'' \<mapsto> ''host-operator-secret'',
      ''HOST_OPERATOR_CONFIG_MAP_NAME'' \<mapsto> ''host-operator-config''])"
    by (simp add: LoadConfig_ok twilioClient_def os_Setenv_def)
  show ?thesis
    using New_ok_file [where fs = sectionFile and path = "''config.yaml''", OF l]
    by (auto simp: sectionFile_def initConfig_def Let_def)
qed

lemma run_nestedFile:
  "\<exists>c. New noCasts nestedFile ''config.yaml'' twilioClient Map.empty =
     (Inr c, [''HOST_OPERATOR_SECRET_NAME'' \<mapsto> ''host-operator-secret'',
              ''HOST_OPERATOR_CONFIG_MAP_NAME'' \<mapsto> ''host-operator-config''])"
proof -
  have l: "LoadConfig noCasts twilioClient Map.empty =
    (Inr (initConfig noCasts twilioSecret
       [''HOST_OPERATOR_SECRET_NAME'' \<mapsto> ''host-operator-secret'',
        ''HOST_OPERATOR_CONFIG_MAP_NAME'' \<mapsto> ''host-operator-config'']),
     [''HOST_OPERATOR_SECRET_NAME'' \<mapsto> ''host-operator-secret'',
      ''HOST_OPERATOR_CONFIG_MAP_NAME'' \<mapsto> ''host-operator-config''])"
    by (simp add: LoadConfig_ok twilioClient_def os_Setenv_def)
  show ?thesis
    using New_ok_file [where fs = nestedFile and path = "''config.yaml''", OF l]
    by (auto simp: nestedFile_def)
qed

lemma run_sectionFile_plain:
  "\<exists>c. New noCasts sectionFile ''config.yaml'' plainClient Map.empty =
     (Inr c, [''HOST_OPERATOR_SECRET_NAME'' \<mapsto> ''host-operator-secret'',
              ''HOST_OPERATOR_CONFIG_MAP_NAME'' \<mapsto> ''host-operator-config'']) \<and>
     secretValues c = Map.empty"
proof -
  have l: "LoadConfig noCasts plainClient Map.empty =
    (Inr (initConfig noCasts Map.empty
       [''HOST_OPERATOR_SECRET_NAME'' \<mapsto> ''host-operator-secret'',
        ''HOST_OPERATOR_CONFIG_MAP_NAME'' \<mapsto> ''host-operator-config'']),
     [''HOST_OPERATOR_SECRET_NAME'' \<mapsto> ''host-operator-secret'',
      ''HOST_OPERATOR_CONFIG_MAP_NAME'' \<mapsto> ''host-operator-config''])"
    by (simp add: LoadConfig_ok plainClient_def os_Setenv_def)
  show ?thesis
    using New_ok_file [where fs = sectionFile and path = "''config.yaml''", OF l]
    by (auto simp: sectionFile_def initConfig_def Let_def)
qed

subsection \<open>The keys that are logged\<close>

lemma AllKeys_set:
  "set (AllKeys (\<lambda>ks. ks) vp) =
     fst ` set (config vp) \<union>
     {k \<in> fst ` set (defaults vp). \<not> isShadowed (map fst (config vp)) k}"
  by (auto simp: AllKeys_def Let_def flattenAndMergeMap_def isShadowed_def)

lemma isShadowed_Nil: "\<not> isShadowed [] key"
  by (simp add: isShadowed_def)

lemma shadowed_by_http:
  "isShadowed [''http''] ''http.address''"
  "isShadowed [''http''] ''http.compress''"
  "isShadowed [''http''] ''http.write_timeout''"
  "isShadowed [''http''] ''http.read_timeout''"
  "isShadowed [''http''] ''http.idle_timeout''"
  "\<not> isShadowed [''http''] ''environment''"
  "\<not> isShadowed [''http''] ''log.level''"
  "\<not> isShadowed [''http''] ''log.json''"
  "\<not> isShadowed [''http''] ''graceful_timeout''"
  "\<not> isShadowed [''http''] ''auth_client.library_url''"
  "\<not> isShadowed [''http''] ''auth_client.config.content_type''"
  "\<not> isShadowed [''http''] ''auth_client.public_keys_url''"
  "\<not> isShadowed [''http''] ''namespace''"
  "\<not> isShadowed [''http''] ''auth_client.config.raw''"
  "\<not> isShadowed [''http''] ''verification.enabled''"
  "\<not> isShadowed [''http''] ''verification.daily_limit''"
  "\<not> isShadowed [''http''] ''verification.attempts_allowed''"
  "\<not> isShadowed [''http''] ''verification.message_template''"
  "\<not> isShadowed [''http''] ''verification.code_expires_in_min''"
  by (simp_all add: isShadowed_def parents_table)

lemma AllKeys_sectionFile:
  assumes "config vp = [(''http'', VString ''foo'')]" "defaults vp = registeredDefaults"
  shows "AllKeys (\<lambda>ks. ks) vp =
     [''http'', ''environment'', ''log.level'', ''log.json'', ''graceful_timeout'',
      ''auth_client.library_url'', ''auth_client.config.content_type'',
      ''auth_client.public_keys_url'', ''namespace'', ''auth_client.config.raw'',
      ''verification.enabled'', ''verification.daily_limit'', ''verification.attempts_allowed'',
      ''verification.message_template'', ''verification.code_expires_in_min'']"
  by (simp add: AllKeys_def Let_def flattenAndMergeMap_def assms registeredDefaults_def
      var_defs shadowed_by_http isShadowed_Nil)


section \<open>Properties of the configuration\<close>

text \<open>
  C1, as stated: a value of the configuration file overrides the value of the bound
  environment variable. Here the file gives "http.address" as "10.0.0.1:80", the variable
  REGISTRATION_HTTP_ADDRESS is "127.0.0.1:9090", and \<open>GetHTTPAddress\<close> returns the value
  of the variable.
\<close>

theorem file_over_env_counterexample:
  "addressFile ''yaml'' ''config.yaml'' = Inr [(''http.address'', VString ''10.0.0.1:80'')] \<and>
   addressEnv ''REGISTRATION_HTTP_ADDRESS'' = Some ''127.0.0.1:9090'' \<and>
   GetHTTPAddress noCasts
     (projr (fst (New noCasts addressFile ''config.yaml'' twilioClient addressEnv)))
     (snd (New noCasts addressFile ''config.yaml'' twilioClient addressEnv)) = ''127.0.0.1:9090'' \<and>
   GetHTTPAddress noCasts
     (projr (fst (New noCasts addressFile ''config.yaml'' twilioClient addressEnv)))
     (snd (New noCasts addressFile ''config.yaml'' twilioClient addressEnv)) \<noteq> ''10.0.0.1:80''"
proof -
  let ?e = "addressEnv(''HOST_OPERATOR_SECRET_NAME'' \<mapsto> ''host-operator-secret'',
              ''HOST_OPERATOR_CONFIG_MAP_NAME'' \<mapsto> ''host-operator-config'')"
  from run_address obtain c where
    r: "New noCasts addressFile ''config.yaml'' twilioClient addressEnv = (Inr c, ?e)"
    by blast
  have g: "getEnv (vreg c) ?e (mergeWithEnvPrefix (vreg c) ''http.address'') =
      Some ''127.0.0.1:9090''"
    by (simp add: getEnv_registry New_vreg [OF r] bound_names addressEnv_def)
  have a: "automaticEnvApplied (vreg c)"
    by (simp add: New_vreg [OF r])
  have d: "searchMap (defaults (vreg c)) ''http.address'' = Some (VString DefaultHTTPAddress)"
    by (simp add: New_vreg [OF r] defaults_lookup defaults_search)
  have "GetHTTPAddress noCasts c ?e = ''127.0.0.1:9090''"
    using GetString_env [OF a, where k = "''http.address''" and env = ?e] g d
    by (simp add: GetHTTPAddress_def varHTTPAddress_def lower_keys)
  with r show ?thesis
    by (simp add: addressFile_def addressEnv_def)
qed

text \<open>
  C1, amended. For every recognized option the order is fixed and total. A non-empty
  value of the bound environment variable (the key in upper case behind "REGISTRATION_",
  dots replaced by underscores) overrides the value of the configuration file, which
  overrides the registered default; a section of the file under the key counts as a
  value of the file, a map. A parent section hides what lies below it: when no
  variable is set for the key and one is set for a parent section of it, nothing is
  found, whatever the file and the defaults hold; when the environment says nothing, the
  file has no value for the key and has a scalar value for a parent section of it,
  nothing is found, whatever the defaults hold. Each accessor returns the value found,
  converted to its kind, and the zero value of its kind when nothing is found; the
  environment is the one at the time of the call, and the list of excluded domains is
  the split of the value at construction.
\<close>

theorem env_over_file_over_default:
  assumes "New cv fs path cl env = (Inr c, env')"
  shows "config (vreg c) = (if path = [] then [] else projr (fs ''yaml'' path)) \<and>
     defaults (vreg c) = registeredDefaults \<and>
     (\<forall>p. getEnv (vreg c) e (mergeWithEnvPrefix (vreg c) p) =
          (case e (Replace (CHR ''.'', CHR ''_'') (strings_ToUpper (''REGISTRATION_'' @ p))) of
             None \<Rightarrow> None
           | Some s \<Rightarrow> if s \<noteq> [] then Some s else None)) \<and>
     (\<forall>k \<in> set recognizedKeys.
        viper_find (vreg c) e k =
          (case getEnv (vreg c) e (mergeWithEnvPrefix (vreg c) k) of
             Some s \<Rightarrow> Some (VString s)
           | None \<Rightarrow>
               if \<exists>p \<in> set (parentKeys (strings_Split k (CHR ''.''))).
                    getEnv (vreg c) e (mergeWithEnvPrefix (vreg c) p) \<noteq> None
               then None
               else (case searchMap (config (vreg c)) k of
                       Some x \<Rightarrow> Some x
                     | None \<Rightarrow>
                         if \<exists>p \<in> set (parentKeys (strings_Split k (CHR ''.''))).
                              map_of (config (vreg c)) p \<noteq> None
                         then None
                         else map_of registeredDefaults k))) \<and>
     ToString cv None = [] \<and> ToBool cv None = False \<and> ToInt cv None = 0 \<and>
     ToDuration cv None = 0 \<and>
     GetHTTPAddress cv c e = ToString cv (viper_find (vreg c) e ''http.address'') \<and>
     GetHTTPCompressResponses cv c e = ToBool cv (viper_find (vreg c) e ''http.compress'') \<and>
     GetHTTPWriteTimeout cv c e =
       ToDuration cv (viper_find (vreg c) e ''http.write_timeout'') \<and>
     GetHTTPReadTimeout cv c e =
       ToDuration cv (viper_find (vreg c) e ''http.read_timeout'') \<and>
     GetHTTPIdleTimeout cv c e =
       ToDuration cv (viper_find (vreg c) e ''http.idle_timeout'') \<and>
     GetEnvironment cv c e = ToString cv (viper_find (vreg c) e ''environment'') \<and>
     GetLogLevel cv c e = ToString cv (viper_find (vreg c) e ''log.level'') \<and>
     IsLogJSON cv c e = ToBool cv (viper_find (vreg c) e ''log.json'') \<and>
     GetGracefulTimeout cv c e = ToDuration cv (viper_find (vreg c) e ''graceful_timeout'') \<and>
     GetAuthClientLibraryURL cv c e =
       ToString cv (viper_find (vreg c) e ''auth_client.library_url'') \<and>
     GetAuthClientConfigAuthContentType cv c e =
       ToString cv (viper_find (vreg c) e ''auth_client.config.content_type'') \<and>
     GetAuthClientConfigAuthRaw cv c e =
       ToString cv (viper_find (vreg c) e ''auth_client.config.raw'') \<and>
     GetAuthClientPublicKeysURL cv c e =
       ToString cv (viper_find (vreg c) e ''auth_client.public_keys_url'') \<and>
     GetNamespace cv c e = ToString cv (viper_find (vreg c) e ''namespace'') \<and>
     GetVerificationEnabled cv c e =
       ToBool cv (viper_find (vreg c) e ''verification.enabled'') \<and>
     GetVerificationDailyLimit cv c e =
       ToInt cv (viper_find (vreg c) e ''verification.daily_limit'') \<and>
     GetVerificationAttemptsAllowed cv c e =
       ToInt cv (viper_find (vreg c) e ''verification.attempts_allowed'') \<and>
     GetVerificationMessageTemplate cv c e =
       ToString cv (viper_find (vreg c) e ''verification.message_template'') \<and>
     GetVerificationCodeExpiresInMin cv c e =
       ToInt cv (viper_find (vreg c) e ''verification.code_expires_in_min'') \<and>
     GetWoopraDomain cv c e = ToString cv (viper_find (vreg c) e ''woopra.domain'') \<and>
     GetSegmentWriteKey cv c e = ToString cv (viper_find (vreg c) e ''segment.write_key'') \<and>
     GetVerificationExcludedEmailDomains c =
       strings_FieldsFunc
         (ToString cv (viper_find (vreg c) env' ''verification.excluded_email_domains''))
         (\<lambda>r. r = CHR '','')"
proof -
  note v = New_vreg [OF assms]
  have a: "automaticEnvApplied (vreg c)" by (simp add: v)
  have d: "defaults (vreg c) = registeredDefaults" by (simp add: v)
  have p: "envPrefix (vreg c) = ''REGISTRATION''"
    "envKeyReplacer (vreg c) = Some (CHR ''.'', CHR ''_'')"
    by (simp_all add: v)
  have 1: "config (vreg c) = (if path = [] then [] else projr (fs ''yaml'' path))"
    by (simp add: v)
  have 2: "\<forall>p. getEnv (vreg c) e (mergeWithEnvPrefix (vreg c) p) =
          (case e (Replace (CHR ''.'', CHR ''_'') (strings_ToUpper (''REGISTRATION_'' @ p))) of
             None \<Rightarrow> None
           | Some s \<Rightarrow> if s \<noteq> [] then Some s else None)"
    using getEnv_registry [OF p] by blast
  have 3: "\<forall>k \<in> set recognizedKeys.
        viper_find (vreg c) e k =
          (case getEnv (vreg c) e (mergeWithEnvPrefix (vreg c) k) of
             Some s \<Rightarrow> Some (VString s)
           | None \<Rightarrow>
               if \<exists>p \<in> set (parentKeys (strings_Split k (CHR ''.''))).
                    getEnv (vreg c) e (mergeWithEnvPrefix (vreg c) p) \<noteq> None
               then None
               else (case searchMap (config (vreg c)) k of
                       Some x \<Rightarrow> Some x
                     | None \<Rightarrow>
                         if \<exists>p \<in> set (parentKeys (strings_Split k (CHR ''.''))).
                              map_of (config (vreg c)) p \<noteq> None
                         then None
                         else map_of registeredDefaults k))"
  proof
    fix k
    assume k: "k \<in> set recognizedKeys"
    from find_total [OF a recognized_parents [OF k], of e]
    show "viper_find (vreg c) e k =
          (case getEnv (vreg c) e (mergeWithEnvPrefix (vreg c) k) of
             Some s \<Rightarrow> Some (VString s)
           | None \<Rightarrow>
               if \<exists>p \<in> set (parentKeys (strings_Split k (CHR ''.''))).
                    getEnv (vreg c) e (mergeWithEnvPrefix (vreg c) p) \<noteq> None
               then None
               else (case searchMap (config (vreg c)) k of
                       Some x \<Rightarrow> Some x
                     | None \<Rightarrow>
                         if \<exists>p \<in> set (parentKeys (strings_Split k (CHR ''.''))).
                              map_of (config (vreg c)) p \<noteq> None
                         then None
                         else map_of registeredDefaults k))"
      by (simp only: d recognized_defaults [OF k])
  qed
  have z: "ToString cv None = [] \<and> ToBool cv None = False \<and> ToInt cv None = 0 \<and>
     ToDuration cv None = 0"
    by simp
  have str: "GetString cv (vreg c) e k = ToString cv (viper_find (vreg c) e k)"
    if "k \<in> set stringKeys" for k e
    using that
    by (auto simp: stringKeys_def var_defs GetString_find lower_keys d defaults_lookup defaults_search)
  have boo: "GetBool cv (vreg c) e k = ToBool cv (viper_find (vreg c) e k)"
    if "k \<in> set boolKeys" for k
    using that
    by (auto simp: boolKeys_def var_defs GetBool_find lower_keys d defaults_lookup defaults_search)
  have num: "GetInt cv (vreg c) e k = ToInt cv (viper_find (vreg c) e k)"
    if "k \<in> set intKeys" for k
    using that
    by (auto simp: intKeys_def var_defs GetInt_find lower_keys d defaults_lookup defaults_search)
  have dur: "GetDuration cv (vreg c) e k = ToDuration cv (viper_find (vreg c) e k)"
    if "k \<in> set durationKeys" for k
    using that
    by (auto simp: durationKeys_def var_defs GetDuration_find lower_keys d defaults_lookup defaults_search)
  have i: "isComma = (\<lambda>r. r = CHR '','')" by (simp add: isComma_def fun_eq_iff)
  have x: "GetVerificationExcludedEmailDomains c =
       strings_FieldsFunc
         (ToString cv (viper_find (vreg c) env' ''verification.excluded_email_domains''))
         (\<lambda>r. r = CHR '','')"
    using str [of varVerificationExcludedEmailDomains env']
    by (simp add: GetVerificationExcludedEmailDomains_def New_excluded [OF assms] i
        stringKeys_def varVerificationExcludedEmailDomains_def)
  have 4: "     GetHTTPAddress cv c e = ToString cv (viper_find (vreg c) e ''http.address'') \<and>
     GetHTTPCompressResponses cv c e = ToBool cv (viper_find (vreg c) e ''http.compress'') \<and>
     GetHTTPWriteTimeout cv c e = ToDuration cv (viper_find (vreg c) e ''http.write_timeout'') \<and>
     GetHTTPReadTimeout cv c e = ToDuration cv (viper_find (vreg c) e ''http.read_timeout'') \<and>
     GetHTTPIdleTimeout cv c e = ToDuration cv (viper_find (vreg c) e ''http.idle_timeout'') \<and>
     GetEnvironment cv c e = ToString cv (viper_find (vreg c) e ''environment'') \<and>
     GetLogLevel cv c e = ToString cv (viper_find (vreg c) e ''log.level'') \<and>
     IsLogJSON cv c e = ToBool cv (viper_find (vreg c) e ''log.json'') \<and>
     GetGracefulTimeout cv c e = ToDuration cv (viper_find (vreg c) e ''graceful_timeout'') \<and>
     GetAuthClientLibraryURL cv c e = ToString cv (viper_find (vreg c) e ''auth_client.library_url'') \<and>
     GetAuthClientConfigAuthContentType cv c e = ToString cv (viper_find (vreg c) e ''auth_client.config.content_type'') \<and>
     GetAuthClientConfigAuthRaw cv c e = ToString cv (viper_find (vreg c) e ''auth_client.config.raw'') \<and>
     GetAuthClientPublicKeysURL cv c e = ToString cv (viper_find (vreg c) e ''auth_client.public_keys_url'') \<and>
     GetNamespace cv c e = ToString cv (viper_find (vreg c) e ''namespace'') \<and>
     GetVerificationEnabled cv c e = ToBool cv (viper_find (vreg c) e ''verification.enabled'') \<and>
     GetVerificationDailyLimit cv c e = ToInt cv (viper_find (vreg c) e ''verification.daily_limit'') \<and>
     GetVerificationAttemptsAllowed cv c e = ToInt cv (viper_find (vreg c) e ''verification.attempts_allowed'') \<and>
     GetVerificationMessageTemplate cv c e = ToString cv (viper_find (vreg c) e ''verification.message_template'') \<and>
     GetVerificationCodeExpiresInMin cv c e = ToInt cv (viper_find (vreg c) e ''verification.code_expires_in_min'') \<and>
     GetWoopraDomain cv c e = ToString cv (viper_find (vreg c) e ''woopra.domain'') \<and>
     GetSegmentWriteKey cv c e = ToString cv (viper_find (vreg c) e ''segment.write_key'')"
    unfolding accessor_defs var_defs
    by (intro conjI str boo num dur) (simp_all add: keys_defs var_defs)
  from 1 d 2 3 z 4 x show ?thesis by blast
qed

theorem env_over_file_over_default_witness:
  "(\<exists>c e. New noCasts addressFile ''config.yaml'' twilioClient addressEnv = (Inr c, e) \<and>
      GetHTTPAddress noCasts c e = ''127.0.0.1:9090'') \<and>
   (\<exists>c e. New noCasts addressFile ''config.yaml'' twilioClient Map.empty = (Inr c, e) \<and>
      GetHTTPAddress noCasts c e = ''10.0.0.1:80'') \<and>
   (\<exists>c e. New noCasts noFiles [] twilioClient Map.empty = (Inr c, e) \<and>
      GetHTTPAddress noCasts c e = ''0.0.0.0:8080'') \<and>
   (\<exists>c e. New noCasts noFiles [] twilioClient sectionEnv = (Inr c, e) \<and>
      GetHTTPAddress noCasts c e = []) \<and>
   (\<exists>c e. New noCasts sectionFile ''config.yaml'' twilioClient Map.empty = (Inr c, e) \<and>
      GetHTTPAddress noCasts c e = []) \<and>
   (\<exists>c e. New noCasts nestedFile ''config.yaml'' twilioClient Map.empty = (Inr c, e) \<and>
      GetHTTPAddress noCasts c e = [])"
proof -
  let ?e = "[''HOST_OPERATOR_SECRET_NAME'' \<mapsto> ''host-operator-secret'',
             ''HOST_OPERATOR_CONFIG_MAP_NAME'' \<mapsto> ''host-operator-config'']"
  let ?a = "addressEnv(''HOST_OPERATOR_SECRET_NAME'' \<mapsto> ''host-operator-secret'',
              ''HOST_OPERATOR_CONFIG_MAP_NAME'' \<mapsto> ''host-operator-config'')"
  let ?s = "sectionEnv(''HOST_OPERATOR_SECRET_NAME'' \<mapsto> ''host-operator-secret'',
              ''HOST_OPERATOR_CONFIG_MAP_NAME'' \<mapsto> ''host-operator-config'')"
  have k: "''http.address'' \<in> set recognizedKeys"
    by (simp add: keys_defs var_defs)
  from run_address obtain c1 where
    r1: "New noCasts addressFile ''config.yaml'' twilioClient addressEnv = (Inr c1, ?a)"
    by blast
  note t1 = env_over_file_over_default [OF r1, of ?a]
  note g1 = t1 [THEN conjunct2, THEN conjunct2, THEN conjunct1, rule_format]
  note k1 = t1 [THEN conjunct2, THEN conjunct2, THEN conjunct2, THEN conjunct1, THEN bspec, OF k]
  have "viper_find (vreg c1) ?a ''http.address'' = Some (VString ''127.0.0.1:9090'')"
    unfolding k1 g1 parents_table by (simp add: bound_names addressEnv_def)
  with t1 have a1: "GetHTTPAddress noCasts c1 ?a = ''127.0.0.1:9090''"
    by simp
  from run_address_file_only obtain c2 where
    r2: "New noCasts addressFile ''config.yaml'' twilioClient Map.empty = (Inr c2, ?e)"
    by blast
  note t2 = env_over_file_over_default [OF r2, of ?e]
  note g2 = t2 [THEN conjunct2, THEN conjunct2, THEN conjunct1, rule_format]
  note k2 = t2 [THEN conjunct2, THEN conjunct2, THEN conjunct2, THEN conjunct1, THEN bspec, OF k]
  have m2: "config (vreg c2) = [(''http.address'', VString ''10.0.0.1:80'')]"
    using t2 by (simp add: addressFile_def)
  have "viper_find (vreg c2) ?e ''http.address'' = Some (VString ''10.0.0.1:80'')"
    unfolding k2 g2 parents_table by (simp add: bound_names m2 searchMap_def)
  with t2 have a2: "GetHTTPAddress noCasts c2 ?e = ''10.0.0.1:80''"
    by simp
  let ?c = "initConfig noCasts twilioSecret ?e"
  note t3 = env_over_file_over_default [OF run_noFiles, of ?e]
  note g3 = t3 [THEN conjunct2, THEN conjunct2, THEN conjunct1, rule_format]
  note k3 = t3 [THEN conjunct2, THEN conjunct2, THEN conjunct2, THEN conjunct1, THEN bspec, OF k]
  have m3: "config (vreg ?c) = []"
    using t3 by simp
  have "viper_find (vreg ?c) ?e ''http.address'' = Some (VString ''0.0.0.0:8080'')"
    unfolding k3 g3 parents_table
    by (simp add: bound_names m3 defaults_lookup DefaultHTTPAddress_def searchMap_def
        isSection_def)
  with t3 have a3: "GetHTTPAddress noCasts ?c ?e = ''0.0.0.0:8080''"
    by simp
  let ?d = "initConfig noCasts twilioSecret ?s"
  note t4 = env_over_file_over_default [OF run_sectionEnv, of ?s]
  note g4 = t4 [THEN conjunct2, THEN conjunct2, THEN conjunct1, rule_format]
  note k4 = t4 [THEN conjunct2, THEN conjunct2, THEN conjunct2, THEN conjunct1, THEN bspec, OF k]
  have "viper_find (vreg ?d) ?s ''http.address'' = None"
    unfolding k4 g4 parents_table by (simp add: bound_names sectionEnv_def)
  with t4 have a4: "GetHTTPAddress noCasts ?d ?s = []"
    by simp
  from run_sectionFile obtain c5 where
    r5: "New noCasts sectionFile ''config.yaml'' twilioClient Map.empty = (Inr c5, ?e)"
    by blast
  note t5 = env_over_file_over_default [OF r5, of ?e]
  note g5 = t5 [THEN conjunct2, THEN conjunct2, THEN conjunct1, rule_format]
  note k5 = t5 [THEN conjunct2, THEN conjunct2, THEN conjunct2, THEN conjunct1, THEN bspec, OF k]
  have m5: "config (vreg c5) = [(''http'', VString ''foo'')]"
    using t5 by (simp add: sectionFile_def)
  have "viper_find (vreg c5) ?e ''http.address'' = None"
    unfolding k5 g5 parents_table by (simp add: bound_names m5 searchMap_def isSection_def)
  with t5 have a5: "GetHTTPAddress noCasts c5 ?e = []"
    by simp
  from run_nestedFile obtain c6 where
    r6: "New noCasts nestedFile ''config.yaml'' twilioClient Map.empty = (Inr c6, ?e)"
    by blast
  note t6 = env_over_file_over_default [OF r6, of ?e]
  note g6 = t6 [THEN conjunct2, THEN conjunct2, THEN conjunct1, rule_format]
  note k6 = t6 [THEN conjunct2, THEN conjunct2, THEN conjunct2, THEN conjunct1, THEN bspec, OF k]
  have m6: "config (vreg c6) = [(''http.address.port'', VInt 80)]"
    using t6 by (simp add: nestedFile_def)
  have "viper_find (vreg c6) ?e ''http.address'' = Some VMap"
    unfolding k6 g6 parents_table by (simp add: bound_names m6 searchMap_def isSection_def)
  with t6 have a6: "GetHTTPAddress noCasts c6 ?e = []"
    by simp
  from r1 a1 r2 a2 run_noFiles a3 run_sectionEnv a4 r5 a5 r6 a6 show ?thesis by blast
qed

text \<open>
  C2, as stated: with no environment variable, no file value and no config-map or secret
  input for a key, its accessor returns the documented default. Here no file is given,
  the cluster has no config map, and the only variable of the environment is
  REGISTRATION_HTTP, the variable of the section "http": no variable is bound to
  "http.address" or to "http.compress". \<open>GetHTTPAddress\<close> returns the empty string, not
  "0.0.0.0:8080", and \<open>GetHTTPCompressResponses\<close> returns false, not true.
\<close>

theorem default_hidden_by_section_counterexample:
  "sectionEnv ''REGISTRATION_HTTP_ADDRESS'' = None \<and>
   sectionEnv ''REGISTRATION_HTTP_COMPRESS'' = None \<and>
   GetHTTPAddress noCasts
     (projr (fst (New noCasts noFiles [] twilioClient sectionEnv)))
     (snd (New noCasts noFiles [] twilioClient sectionEnv)) = [] \<and>
   GetHTTPAddress noCasts
     (projr (fst (New noCasts noFiles [] twilioClient sectionEnv)))
     (snd (New noCasts noFiles [] twilioClient sectionEnv)) \<noteq> ''0.0.0.0:8080'' \<and>
   \<not> GetHTTPCompressResponses noCasts
     (projr (fst (New noCasts noFiles [] twilioClient sectionEnv)))
     (snd (New noCasts noFiles [] twilioClient sectionEnv))"
proof -
  let ?s = "sectionEnv(''HOST_OPERATOR_SECRET_NAME'' \<mapsto> ''host-operator-secret'',
              ''HOST_OPERATOR_CONFIG_MAP_NAME'' \<mapsto> ''host-operator-config'')"
  let ?c = "initConfig noCasts twilioSecret ?s"
  have a: "automaticEnvApplied (vreg ?c)" by (simp add: initConfig_vreg)
  have p: "envPrefix (vreg ?c) = ''REGISTRATION''"
    "envKeyReplacer (vreg ?c) = Some (CHR ''.'', CHR ''_'')"
    by (simp_all add: initConfig_vreg)
  note g = getEnv_registry [OF p, of ?s]
  have h: "isPathShadowedInAutoEnv (vreg ?c) ?s (strings_Split k (CHR ''.'')) \<noteq> []"
    if "parentKeys (strings_Split k (CHR ''.'')) = [''http'']" for k
    unfolding isPathShadowedInAutoEnv_def that g
    by (simp add: bound_names sectionEnv_def)
  have n1: "getEnv (vreg ?c) ?s (mergeWithEnvPrefix (vreg ?c) ''http.address'') = None"
    unfolding g by (simp add: bound_names sectionEnv_def)
  have n2: "getEnv (vreg ?c) ?s (mergeWithEnvPrefix (vreg ?c) ''http.compress'') = None"
    unfolding g by (simp add: bound_names sectionEnv_def)
  have f1: "viper_find (vreg ?c) ?s ''http.address'' = None"
    by (rule find_env_hidden [OF a n1]) (rule h, simp add: parents_table)
  have f2: "viper_find (vreg ?c) ?s ''http.compress'' = None"
    by (rule find_env_hidden [OF a n2]) (rule h, simp add: parents_table)
  have 1: "GetHTTPAddress noCasts ?c ?s = []"
    by (simp add: GetHTTPAddress_def varHTTPAddress_def GetString_find lower_keys
        initConfig_vreg defaults_lookup defaults_search f1 [unfolded initConfig_vreg])
  have 2: "\<not> GetHTTPCompressResponses noCasts ?c ?s"
    by (simp add: GetHTTPCompressResponses_def varHTTPCompressResponses_def
        GetBool_find [where d = DefaultHTTPCompressResponses] lower_keys
        initConfig_vreg defaults_lookup defaults_search f2 [unfolded initConfig_vreg])
  have 3: "sectionEnv ''REGISTRATION_HTTP_ADDRESS'' = None"
    "sectionEnv ''REGISTRATION_HTTP_COMPRESS'' = None"
    by (simp_all add: sectionEnv_def)
  from 1 2 3 show ?thesis
    by (simp add: run_sectionEnv)
qed

text \<open>
  C2, amended. For each recognized option: when the environment and the file are silent
  about the option, its accessor returns the documented default, that is the value of
  the option's \<open>Default\<close> constant, and the empty string or list for the three options
  that have none. The environment is silent about an option when no variable bound to
  the option or to a parent section of it is set to a non-empty value; the file is
  silent when it has no value for the option, no value below it and no scalar value for
  a parent section of it. The environment is the one at the time of the call; for the list of excluded
  domains it is the one at construction.
\<close>

theorem defaults_when_silent:
  assumes "New cv fs path cl env = (Inr c, env')"
  shows "(\<forall>p. getEnv (vreg c) e (mergeWithEnvPrefix (vreg c) p) =
          (case e (Replace (CHR ''.'', CHR ''_'') (strings_ToUpper (''REGISTRATION_'' @ p))) of
             None \<Rightarrow> None
           | Some s \<Rightarrow> if s \<noteq> [] then Some s else None)) \<and>
     config (vreg c) = (if path = [] then [] else projr (fs ''yaml'' path)) \<and>
     (\<forall>k \<in> set recognizedKeys.
        envSilent (vreg c) e k =
          (\<forall>p \<in> set (k # parentKeys (strings_Split k (CHR ''.''))).
             getEnv (vreg c) e (mergeWithEnvPrefix (vreg c) p) = None)) \<and>
     (\<forall>k \<in> set recognizedKeys.
        fileSilent (vreg c) k =
          (\<not> isSection (config (vreg c)) k \<and>
           (\<forall>p \<in> set (k # parentKeys (strings_Split k (CHR ''.''))).
              map_of (config (vreg c)) p = None))) \<and>
     (envSilent (vreg c) e ''http.address'' \<and> fileSilent (vreg c) ''http.address'' \<longrightarrow>
        GetHTTPAddress cv c e = ''0.0.0.0:8080'') \<and>
     (envSilent (vreg c) e ''http.idle_timeout'' \<and> fileSilent (vreg c) ''http.idle_timeout'' \<longrightarrow>
        GetHTTPIdleTimeout cv c e = 15 * 1000000000) \<and>
     (envSilent (vreg c) e ''http.compress'' \<and> fileSilent (vreg c) ''http.compress'' \<longrightarrow>
        GetHTTPCompressResponses cv c e = True) \<and>
     (envSilent (vreg c) e ''environment'' \<and> fileSilent (vreg c) ''environment'' \<longrightarrow>
        GetEnvironment cv c e = ''prod'') \<and>
     (envSilent (vreg c) e ''log.level'' \<and> fileSilent (vreg c) ''log.level'' \<longrightarrow>
        GetLogLevel cv c e = ''info'') \<and>
     (envSilent (vreg c) e ''log.json'' \<and> fileSilent (vreg c) ''log.json'' \<longrightarrow>
        IsLogJSON cv c e = False) \<and>
     (envSilent (vreg c) e ''graceful_timeout'' \<and> fileSilent (vreg c) ''graceful_timeout'' \<longrightarrow>
        GetGracefulTimeout cv c e = 15 * 1000000000) \<and>
     (envSilent (vreg c) e ''http.write_timeout'' \<and> fileSilent (vreg c) ''http.write_timeout'' \<longrightarrow>
        GetHTTPWriteTimeout cv c e = 15 * 1000000000) \<and>
     (envSilent (vreg c) e ''http.read_timeout'' \<and> fileSilent (vreg c) ''http.read_timeout'' \<longrightarrow>
        GetHTTPReadTimeout cv c e = 15 * 1000000000) \<and>
     (envSilent (vreg c) e ''auth_client.library_url'' \<and> fileSilent (vreg c) ''auth_client.library_url'' \<longrightarrow>
        GetAuthClientLibraryURL cv c e = ''http://129.40.58.177:8082/auth/js/keycloak.js'') \<and>
     (envSilent (vreg c) e ''auth_client.config.raw'' \<and> fileSilent (vreg c) ''auth_client.config.raw'' \<longrightarrow>
        GetAuthClientConfigAuthRaw cv c e = DefaultAuthClientConfigRaw) \<and>
     (envSilent (vreg c) e ''auth_client.config.content_type'' \<and> fileSilent (vreg c) ''auth_client.config.content_type'' \<longrightarrow>
        GetAuthClientConfigAuthContentType cv c e = ''application/json; charset=utf-8'') \<and>
     (envSilent (vreg c) e ''auth_client.public_keys_url'' \<and> fileSilent (vreg c) ''auth_client.public_keys_url'' \<longrightarrow>
        GetAuthClientPublicKeysURL cv c e = ''http://129.40.58.177:8082/auth/realms/local/protocol/openid-connect/certs'') \<and>
     (envSilent (vreg c) e ''namespace'' \<and> fileSilent (vreg c) ''namespace'' \<longrightarrow>
        GetNamespace cv c e = ''toolchain-host-operator'') \<and>
     (envSilent (vreg c) e ''verification.enabled'' \<and> fileSilent (vreg c) ''verification.enabled'' \<longrightarrow>
        GetVerificationEnabled cv c e = False) \<and>
     (envSilent (vreg c) e ''verification.daily_limit'' \<and> fileSilent (vreg c) ''verification.daily_limit'' \<longrightarrow>
        GetVerificationDailyLimit cv c e = 5) \<and>
     (envSilent (vreg c) e ''verification.attempts_allowed'' \<and> fileSilent (vreg c) ''verification.attempts_allowed'' \<longrightarrow>
        GetVerificationAttemptsAllowed cv c e = 3) \<and>
     (envSilent (vreg c) e ''verification.message_template'' \<and> fileSilent (vreg c) ''verification.message_template'' \<longrightarrow>
        GetVerificationMessageTemplate cv c e = ''Developer Sandbox for Red Hat OpenShift: Your verification code is %s'') \<and>
     (envSilent (vreg c) env' ''verification.excluded_email_domains'' \<and> fileSilent (vreg c) ''verification.excluded_email_domains'' \<longrightarrow>
        GetVerificationExcludedEmailDomains c = []) \<and>
     (envSilent (vreg c) e ''verification.code_expires_in_min'' \<and> fileSilent (vreg c) ''verification.code_expires_in_min'' \<longrightarrow>
        GetVerificationCodeExpiresInMin cv c e = 5) \<and>
     (envSilent (vreg c) e ''woopra.domain'' \<and> fileSilent (vreg c) ''woopra.domain'' \<longrightarrow>
        GetWoopraDomain cv c e = []) \<and>
     (envSilent (vreg c) e ''segment.write_key'' \<and> fileSilent (vreg c) ''segment.write_key'' \<longrightarrow>
        GetSegmentWriteKey cv c e = [])"
proof -
  have d: "defaults (vreg c) = registeredDefaults"
    by (simp add: New_vreg [OF assms])
  note str = GetString_default [where vp = "vreg c" and cv = cv]
  note nod = GetString_nodefault [where vp = "vreg c" and cv = cv]
  note boo = GetBool_default [where vp = "vreg c" and cv = cv]
  note num = GetInt_default [where vp = "vreg c" and cv = cv]
  note dur = GetDuration_default [where vp = "vreg c" and cv = cv]
  have a1: "(envSilent (vreg c) e ''http.address'' \<and> fileSilent (vreg c) ''http.address'' \<longrightarrow>
        GetHTTPAddress cv c e = ''0.0.0.0:8080'')"
  proof
    assume s: "envSilent (vreg c) e ''http.address'' \<and> fileSilent (vreg c) ''http.address''"
    show "GetHTTPAddress cv c e = ''0.0.0.0:8080''"
      unfolding GetHTTPAddress_def varHTTPAddress_def
      by (rule str) (simp_all add: lower_keys s d defaults_lookup defaults_search default_defs)
  qed
  have a2: "(envSilent (vreg c) e ''http.idle_timeout'' \<and> fileSilent (vreg c) ''http.idle_timeout'' \<longrightarrow>
        GetHTTPIdleTimeout cv c e = 15 * 1000000000)"
  proof
    assume s: "envSilent (vreg c) e ''http.idle_timeout'' \<and> fileSilent (vreg c) ''http.idle_timeout''"
    show "GetHTTPIdleTimeout cv c e = 15 * 1000000000"
      unfolding GetHTTPIdleTimeout_def varHTTPIdleTimeout_def
      by (rule dur) (simp_all add: lower_keys s d defaults_lookup defaults_search default_defs)
  qed
  have a3: "(envSilent (vreg c) e ''http.compress'' \<and> fileSilent (vreg c) ''http.compress'' \<longrightarrow>
        GetHTTPCompressResponses cv c e = True)"
  proof
    assume s: "envSilent (vreg c) e ''http.compress'' \<and> fileSilent (vreg c) ''http.compress''"
    show "GetHTTPCompressResponses cv c e = True"
      unfolding GetHTTPCompressResponses_def varHTTPCompressResponses_def
      by (rule boo) (simp_all add: lower_keys s d defaults_lookup defaults_search default_defs)
  qed
  have a4: "(envSilent (vreg c) e ''environment'' \<and> fileSilent (vreg c) ''environment'' \<longrightarrow>
        GetEnvironment cv c e = ''prod'')"
  proof
    assume s: "envSilent (vreg c) e ''environment'' \<and> fileSilent (vreg c) ''environment''"
    show "GetEnvironment cv c e = ''prod''"
      unfolding GetEnvironment_def varEnvironment_def
      by (rule str) (simp_all add: lower_keys s d defaults_lookup defaults_search default_defs)
  qed
  have a5: "(envSilent (vreg c) e ''log.level'' \<and> fileSilent (vreg c) ''log.level'' \<longrightarrow>
        GetLogLevel cv c e = ''info'')"
  proof
    assume s: "envSilent (vreg c) e ''log.level'' \<and> fileSilent (vreg c) ''log.level''"
    show "GetLogLevel cv c e = ''info''"
      unfolding GetLogLevel_def varLogLevel_def
      by (rule str) (simp_all add: lower_keys s d defaults_lookup defaults_search default_defs)
  qed
  have a6: "(envSilent (vreg c) e ''log.json'' \<and> fileSilent (vreg c) ''log.json'' \<longrightarrow>
        IsLogJSON cv c e = False)"
  proof
    assume s: "envSilent (vreg c) e ''log.json'' \<and> fileSilent (vreg c) ''log.json''"
    show "IsLogJSON cv c e = False"
      unfolding IsLogJSON_def varLogJSON_def
      by (rule boo) (simp_all add: lower_keys s d defaults_lookup defaults_search default_defs)
  qed
  have a7: "(envSilent (vreg c) e ''graceful_timeout'' \<and> fileSilent (vreg c) ''graceful_timeout'' \<longrightarrow>
        GetGracefulTimeout cv c e = 15 * 1000000000)"
  proof
    assume s: "envSilent (vreg c) e ''graceful_timeout'' \<and> fileSilent (vreg c) ''graceful_timeout''"
    show "GetGracefulTimeout cv c e = 15 * 1000000000"
      unfolding GetGracefulTimeout_def varGracefulTimeout_def
      by (rule dur) (simp_all add: lower_keys s d defaults_lookup defaults_search default_defs)
  qed
  have a8: "(envSilent (vreg c) e ''http.write_timeout'' \<and> fileSilent (vreg c) ''http.write_timeout'' \<longrightarrow>
        GetHTTPWriteTimeout cv c e = 15 * 1000000000)"
  proof
    assume s: "envSilent (vreg c) e ''http.write_timeout'' \<and> fileSilent (vreg c) ''http.write_timeout''"
    show "GetHTTPWriteTimeout cv c e = 15 * 1000000000"
      unfolding GetHTTPWriteTimeout_def varHTTPWriteTimeout_def
      by (rule dur) (simp_all add: lower_keys s d defaults_lookup defaults_search default_defs)
  qed
  have a9: "(envSilent (vreg c) e ''http.read_timeout'' \<and> fileSilent (vreg c) ''http.read_timeout'' \<longrightarrow>
        GetHTTPReadTimeout cv c e = 15 * 1000000000)"
  proof
    assume s: "envSilent (vreg c) e ''http.read_timeout'' \<and> fileSilent (vreg c) ''http.read_timeout''"
    show "GetHTTPReadTimeout cv c e = 15 * 1000000000"
      unfolding GetHTTPReadTimeout_def varHTTPReadTimeout_def
      by (rule dur) (simp_all add: lower_keys s d defaults_lookup defaults_search default_defs)
  qed
  have a10: "(envSilent (vreg c) e ''auth_client.library_url'' \<and> fileSilent (vreg c) ''auth_client.library_url'' \<longrightarrow>
        GetAuthClientLibraryURL cv c e = ''http://129.40.58.177:8082/auth/js/keycloak.js'')"
  proof
    assume s: "envSilent (vreg c) e ''auth_client.library_url'' \<and> fileSilent (vreg c) ''auth_client.library_url''"
    show "GetAuthClientLibraryURL cv c e = ''http://129.40.58.177:8082/auth/js/keycloak.js''"
      unfolding GetAuthClientLibraryURL_def varAuthClientLibraryURL_def
      by (rule str) (simp_all add: lower_keys s d defaults_lookup defaults_search default_defs)
  qed
  have a11: "(envSilent (vreg c) e ''auth_client.config.raw'' \<and> fileSilent (vreg c) ''auth_client.config.raw'' \<longrightarrow>
        GetAuthClientConfigAuthRaw cv c e = DefaultAuthClientConfigRaw)"
  proof
    assume s: "envSilent (vreg c) e ''auth_client.config.raw'' \<and> fileSilent (vreg c) ''auth_client.config.raw''"
    show "GetAuthClientConfigAuthRaw cv c e = DefaultAuthClientConfigRaw"
      unfolding GetAuthClientConfigAuthRaw_def varAuthClientConfigRaw_def
      by (rule str) (simp_all add: lower_keys s d defaults_lookup defaults_search)
  qed
  have a12: "(envSilent (vreg c) e ''auth_client.config.content_type'' \<and> fileSilent (vreg c) ''auth_client.config.content_type'' \<longrightarrow>
        GetAuthClientConfigAuthContentType cv c e = ''application/json; charset=utf-8'')"
  proof
    assume s: "envSilent (vreg c) e ''auth_client.config.content_type'' \<and> fileSilent (vreg c) ''auth_client.config.content_type''"
    show "GetAuthClientConfigAuthContentType cv c e = ''application/json; charset=utf-8''"
      unfolding GetAuthClientConfigAuthContentType_def varAuthClientConfigContentType_def
      by (rule str) (simp_all add: lower_keys s d defaults_lookup defaults_search default_defs)
  qed
  have a13: "(envSilent (vreg c) e ''auth_client.public_keys_url'' \<and> fileSilent (vreg c) ''auth_client.public_keys_url'' \<longrightarrow>
        GetAuthClientPublicKeysURL cv c e = ''http://129.40.58.177:8082/auth/realms/local/protocol/openid-connect/certs'')"
  proof
    assume s: "envSilent (vreg c) e ''auth_client.public_keys_url'' \<and> fileSilent (vreg c) ''auth_client.public_keys_url''"
    show "GetAuthClientPublicKeysURL cv c e = ''http://129.40.58.177:8082/auth/realms/local/protocol/openid-connect/certs''"
      unfolding GetAuthClientPublicKeysURL_def varAuthClientPublicKeysURL_def
      by (rule str) (simp_all add: lower_keys s d defaults_lookup defaults_search default_defs)
  qed
  have a14: "(envSilent (vreg c) e ''namespace'' \<and> fileSilent (vreg c) ''namespace'' \<longrightarrow>
        GetNamespace cv c e = ''toolchain-host-operator'')"
  proof
    assume s: "envSilent (vreg c) e ''namespace'' \<and> fileSilent (vreg c) ''namespace''"
    show "GetNamespace cv c e = ''toolchain-host-operator''"
      unfolding GetNamespace_def varNamespace_def
      by (rule str) (simp_all add: lower_keys s d defaults_lookup defaults_search default_defs)
  qed
  have a15: "(envSilent (vreg c) e ''verification.enabled'' \<and> fileSilent (vreg c) ''verification.enabled'' \<longrightarrow>
        GetVerificationEnabled cv c e = False)"
  proof
    assume s: "envSilent (vreg c) e ''verification.enabled'' \<and> fileSilent (vreg c) ''verification.enabled''"
    show "GetVerificationEnabled cv c e = False"
      unfolding GetVerificationEnabled_def varVerificationEnabled_def
      by (rule boo) (simp_all add: lower_keys s d defaults_lookup defaults_search default_defs)
  qed
  have a16: "(envSilent (vreg c) e ''verification.daily_limit'' \<and> fileSilent (vreg c) ''verification.daily_limit'' \<longrightarrow>
        GetVerificationDailyLimit cv c e = 5)"
  proof
    assume s: "envSilent (vreg c) e ''verification.daily_limit'' \<and> fileSilent (vreg c) ''verification.daily_limit''"
    show "GetVerificationDailyLimit cv c e = 5"
      unfolding GetVerificationDailyLimit_def varVerificationDailyLimit_def
      by (rule num) (simp_all add: lower_keys s d defaults_lookup defaults_search default_defs)
  qed
  have a17: "(envSilent (vreg c) e ''verification.attempts_allowed'' \<and> fileSilent (vreg c) ''verification.attempts_allowed'' \<longrightarrow>
        GetVerificationAttemptsAllowed cv c e = 3)"
  proof
    assume s: "envSilent (vreg c) e ''verification.attempts_allowed'' \<and> fileSilent (vreg c) ''verification.attempts_allowed''"
    show "GetVerificationAttemptsAllowed cv c e = 3"
      unfolding GetVerificationAttemptsAllowed_def varVerificationAttemptsAllowed_def
      by (rule num) (simp_all add: lower_keys s d defaults_lookup defaults_search default_defs)
  qed
  have a18: "(envSilent (vreg c) e ''verification.message_template'' \<and> fileSilent (vreg c) ''verification.message_template'' \<longrightarrow>
        GetVerificationMessageTemplate cv c e = ''Developer Sandbox for Red Hat OpenShift: Your verification code is %s'')"
  proof
    assume s: "envSilent (vreg c) e ''verification.message_template'' \<and> fileSilent (vreg c) ''verification.message_template''"
    show "GetVerificationMessageTemplate cv c e = ''Developer Sandbox for Red Hat OpenShift: Your verification code is %s''"
      unfolding GetVerificationMessageTemplate_def varVerificationMessageTemplate_def
      by (rule str) (simp_all add: lower_keys s d defaults_lookup defaults_search default_defs)
  qed
  have x: "(envSilent (vreg c) env' ''verification.excluded_email_domains'' \<and> fileSilent (vreg c) ''verification.excluded_email_domains'' \<longrightarrow>
        GetVerificationExcludedEmailDomains c = [])"
  proof
    assume s: "envSilent (vreg c) env' ''verification.excluded_email_domains'' \<and>
      fileSilent (vreg c) ''verification.excluded_email_domains''"
    have "GetString cv (vreg c) env' ''verification.excluded_email_domains'' = []"
      by (rule nod) (simp_all add: lower_keys s d defaults_lookup defaults_search)
    then show "GetVerificationExcludedEmailDomains c = []"
      by (simp add: GetVerificationExcludedEmailDomains_def New_excluded [OF assms]
          varVerificationExcludedEmailDomains_def FieldsFunc_empty)
  qed
  have a19: "(envSilent (vreg c) e ''verification.code_expires_in_min'' \<and> fileSilent (vreg c) ''verification.code_expires_in_min'' \<longrightarrow>
        GetVerificationCodeExpiresInMin cv c e = 5)"
  proof
    assume s: "envSilent (vreg c) e ''verification.code_expires_in_min'' \<and> fileSilent (vreg c) ''verification.code_expires_in_min''"
    show "GetVerificationCodeExpiresInMin cv c e = 5"
      unfolding GetVerificationCodeExpiresInMin_def varVerificationCodeExpiresInMin_def
      by (rule num) (simp_all add: lower_keys s d defaults_lookup defaults_search default_defs)
  qed
  have a20: "(envSilent (vreg c) e ''woopra.domain'' \<and> fileSilent (vreg c) ''woopra.domain'' \<longrightarrow>
        GetWoopraDomain cv c e = [])"
  proof
    assume s: "envSilent (vreg c) e ''woopra.domain'' \<and> fileSilent (vreg c) ''woopra.domain''"
    show "GetWoopraDomain cv c e = []"
      unfolding GetWoopraDomain_def varWoopraDomain_def
      by (rule nod) (simp_all add: lower_keys s d defaults_lookup defaults_search)
  qed
  have a21: "(envSilent (vreg c) e ''segment.write_key'' \<and> fileSilent (vreg c) ''segment.write_key'' \<longrightarrow>
        GetSegmentWriteKey cv c e = [])"
  proof
    assume s: "envSilent (vreg c) e ''segment.write_key'' \<and> fileSilent (vreg c) ''segment.write_key''"
    show "GetSegmentWriteKey cv c e = []"
      unfolding GetSegmentWriteKey_def varSegmentWriteKey_def
      by (rule nod) (simp_all add: lower_keys s d defaults_lookup defaults_search)
  qed
  note v = New_vreg [OF assms]
  have p: "envPrefix (vreg c) = ''REGISTRATION''"
    "envKeyReplacer (vreg c) = Some (CHR ''.'', CHR ''_'')"
    by (simp_all add: v)
  have b1: "\<forall>p. getEnv (vreg c) e (mergeWithEnvPrefix (vreg c) p) =
          (case e (Replace (CHR ''.'', CHR ''_'') (strings_ToUpper (''REGISTRATION_'' @ p))) of
             None \<Rightarrow> None
           | Some s \<Rightarrow> if s \<noteq> [] then Some s else None)"
    using getEnv_registry [OF p] by blast
  have b2: "config (vreg c) = (if path = [] then [] else projr (fs ''yaml'' path))"
    by (simp add: v)
  have b3: "\<forall>k \<in> set recognizedKeys.
        envSilent (vreg c) e k =
          (\<forall>p \<in> set (k # parentKeys (strings_Split k (CHR ''.''))).
             getEnv (vreg c) e (mergeWithEnvPrefix (vreg c) p) = None)"
    using envSilent_iff [OF recognized_parents] by blast
  have b4: "\<forall>k \<in> set recognizedKeys.
        fileSilent (vreg c) k =
          (\<not> isSection (config (vreg c)) k \<and>
           (\<forall>p \<in> set (k # parentKeys (strings_Split k (CHR ''.''))).
              map_of (config (vreg c)) p = None))"
    using fileSilent_iff [OF recognized_parents] by blast
  show ?thesis
    by (intro conjI b1 b2 b3 b4 a1 a2 a3 a4 a5 a6 a7 a8 a9 a10 a11 a12 a13 a14 a15 a16 a17
        a18 x a19 a20 a21)
qed

theorem defaults_when_silent_witness:
  "\<exists>c e. New noCasts noFiles [] twilioClient Map.empty = (Inr c, e) \<and>
     GetHTTPAddress noCasts c e = ''0.0.0.0:8080'' \<and>
     GetHTTPIdleTimeout noCasts c e = 15000000000 \<and>
     GetHTTPCompressResponses noCasts c e = True \<and>
     GetEnvironment noCasts c e = ''prod'' \<and>
     GetLogLevel noCasts c e = ''info'' \<and>
     IsLogJSON noCasts c e = False \<and>
     GetGracefulTimeout noCasts c e = 15000000000 \<and>
     GetHTTPWriteTimeout noCasts c e = 15000000000 \<and>
     GetHTTPReadTimeout noCasts c e = 15000000000 \<and>
     GetAuthClientLibraryURL noCasts c e = ''http://129.40.58.177:8082/auth/js/keycloak.js'' \<and>
     GetAuthClientConfigAuthRaw noCasts c e = DefaultAuthClientConfigRaw \<and>
     GetAuthClientConfigAuthContentType noCasts c e = ''application/json; charset=utf-8'' \<and>
     GetAuthClientPublicKeysURL noCasts c e = ''http://129.40.58.177:8082/auth/realms/local/protocol/openid-connect/certs'' \<and>
     GetNamespace noCasts c e = ''toolchain-host-operator'' \<and>
     GetVerificationEnabled noCasts c e = False \<and>
     GetVerificationDailyLimit noCasts c e = 5 \<and>
     GetVerificationAttemptsAllowed noCasts c e = 3 \<and>
     GetVerificationMessageTemplate noCasts c e = ''Developer Sandbox for Red Hat OpenShift: Your verification code is %s'' \<and>
     GetVerificationExcludedEmailDomains c = [] \<and>
     GetVerificationCodeExpiresInMin noCasts c e = 5 \<and>
     GetWoopraDomain noCasts c e = [] \<and>
     GetSegmentWriteKey noCasts c e = []"
proof -
  let ?e = "[''HOST_OPERATOR_SECRET_NAME'' \<mapsto> ''host-operator-secret'',
             ''HOST_OPERATOR_CONFIG_MAP_NAME'' \<mapsto> ''host-operator-config'']"
  let ?c = "initConfig noCasts twilioSecret ?e"
  have es: "envSilent (vreg ?c) ?e k" for k
    by (rule envSilent_no_prefixed) (simp_all add: initConfig_vreg)
  have fs: "fileSilent (vreg ?c) k" for k
    by (rule fileSilent_empty) (simp add: initConfig_vreg)
  note t = defaults_when_silent [OF run_noFiles, of ?e]
  note i = t [THEN conjunct2, THEN conjunct2, THEN conjunct2, THEN conjunct2]
  from i have "GetHTTPAddress noCasts ?c ?e = ''0.0.0.0:8080'' \<and>
     GetHTTPIdleTimeout noCasts ?c ?e = 15000000000 \<and>
     GetHTTPCompressResponses noCasts ?c ?e = True \<and>
     GetEnvironment noCasts ?c ?e = ''prod'' \<and>
     GetLogLevel noCasts ?c ?e = ''info'' \<and>
     IsLogJSON noCasts ?c ?e = False \<and>
     GetGracefulTimeout noCasts ?c ?e = 15000000000 \<and>
     GetHTTPWriteTimeout noCasts ?c ?e = 15000000000 \<and>
     GetHTTPReadTimeout noCasts ?c ?e = 15000000000 \<and>
     GetAuthClientLibraryURL noCasts ?c ?e = ''http://129.40.58.177:8082/auth/js/keycloak.js'' \<and>
     GetAuthClientConfigAuthRaw noCasts ?c ?e = DefaultAuthClientConfigRaw \<and>
     GetAuthClientConfigAuthContentType noCasts ?c ?e = ''application/json; charset=utf-8'' \<and>
     GetAuthClientPublicKeysURL noCasts ?c ?e = ''http://129.40.58.177:8082/auth/realms/local/protocol/openid-connect/certs'' \<and>
     GetNamespace noCasts ?c ?e = ''toolchain-host-operator'' \<and>
     GetVerificationEnabled noCasts ?c ?e = False \<and>
     GetVerificationDailyLimit noCasts ?c ?e = 5 \<and>
     GetVerificationAttemptsAllowed noCasts ?c ?e = 3 \<and>
     GetVerificationMessageTemplate noCasts ?c ?e = ''Developer Sandbox for Red Hat OpenShift: Your verification code is %s'' \<and>
     GetVerificationExcludedEmailDomains ?c = [] \<and>
     GetVerificationCodeExpiresInMin noCasts ?c ?e = 5 \<and>
     GetWoopraDomain noCasts ?c ?e = [] \<and>
     GetSegmentWriteKey noCasts ?c ?e = []"
    by (simp add: es fs)
  with run_noFiles show ?thesis by simp
qed

text \<open>
  C3. The Twilio accessors depend only on the secret mapping loaded at construction: two
  constructions whose secret loader returns the same mapping give the same account SID,
  auth token and from-number, whatever the conversions, files, paths, other loader
  results and environments are. The mapping held by the configuration is the one the
  loader returned.
\<close>

theorem twilio_only_secret:
  assumes "New cv1 fs1 path1 cl1 env1 = (Inr c1, e1)"
    and "New cv2 fs2 path2 cl2 env2 = (Inr c2, e2)"
    and "LoadFromSecret cl1 ''HOST_OPERATOR_SECRET_NAME''
           (os_Setenv ''HOST_OPERATOR_SECRET_NAME'' ''host-operator-secret'' env1) =
         LoadFromSecret cl2 ''HOST_OPERATOR_SECRET_NAME''
           (os_Setenv ''HOST_OPERATOR_SECRET_NAME'' ''host-operator-secret'' env2)"
  shows "LoadFromSecret cl1 ''HOST_OPERATOR_SECRET_NAME''
           (os_Setenv ''HOST_OPERATOR_SECRET_NAME'' ''host-operator-secret'' env1) =
           Inr (secretValues c1) \<and>
         secretValues c1 = secretValues c2 \<and>
         GetTwilioAccountSID c1 = GetTwilioAccountSID c2 \<and>
         GetTwilioAuthToken c1 = GetTwilioAuthToken c2 \<and>
         GetTwilioFromNumber c1 = GetTwilioFromNumber c2"
proof -
  from New_Inr [OF assms(1)] obtain d1 where
    d1: "LoadConfig cv1 cl1 env1 = (Inr d1, e1)" "secretValues c1 = secretValues d1"
    by blast
  from New_Inr [OF assms(2)] obtain d2 where
    d2: "LoadConfig cv2 cl2 env2 = (Inr d2, e2)" "secretValues c2 = secretValues d2"
    by blast
  from LoadConfig_Inr [OF d1(1)] obtain s1 where
    s1: "LoadFromSecret cl1 ''HOST_OPERATOR_SECRET_NAME''
           (os_Setenv ''HOST_OPERATOR_SECRET_NAME'' ''host-operator-secret'' env1) = Inr s1"
      "d1 = initConfig cv1 s1 e1"
    by blast
  from LoadConfig_Inr [OF d2(1)] obtain s2 where
    s2: "LoadFromSecret cl2 ''HOST_OPERATOR_SECRET_NAME''
           (os_Setenv ''HOST_OPERATOR_SECRET_NAME'' ''host-operator-secret'' env2) = Inr s2"
      "d2 = initConfig cv2 s2 e2"
    by blast
  have a: "secretValues c1 = s1" using d1(2) s1(2) by (simp add: initConfig_def Let_def)
  have b: "secretValues c2 = s2" using d2(2) s2(2) by (simp add: initConfig_def Let_def)
  from assms(3) s1(1) s2(1) have "s1 = s2" by simp
  with a b s1(1) show ?thesis
    by (simp add: GetTwilioAccountSID_def GetTwilioAuthToken_def GetTwilioFromNumber_def)
qed

theorem twilio_only_secret_witness:
  "(\<exists>c e. New noCasts noFiles [] twilioClient Map.empty = (Inr c, e)) \<and>
   (\<exists>c e. New noCasts twilioFile ''config.yaml'' twilioClient twilioEnv = (Inr c, e)) \<and>
   GetTwilioAccountSID (projr (fst (New noCasts noFiles [] twilioClient Map.empty))) =
   GetTwilioAccountSID (projr (fst (New noCasts twilioFile ''config.yaml'' twilioClient twilioEnv))) \<and>
   GetTwilioAccountSID (projr (fst (New noCasts twilioFile ''config.yaml'' twilioClient twilioEnv))) =
     ''AC0123''"
proof -
  obtain c1 e1 where r1: "New noCasts noFiles [] twilioClient Map.empty = (Inr c1, e1)"
    by (simp add: New_ok_nofile twilioClient_def)
  have "\<exists>c0 e. LoadConfig noCasts twilioClient twilioEnv = (Inr c0, e)"
    by (simp add: LoadConfig_ok twilioClient_def)
  then obtain c0 e2 where l2: "LoadConfig noCasts twilioClient twilioEnv = (Inr c0, e2)"
    by blast
  have "\<exists>c. New noCasts twilioFile ''config.yaml'' twilioClient twilioEnv = (Inr c, e2)"
    using New_ok_file [OF l2, where path = "''config.yaml''" and fs = twilioFile]
    by (auto simp: twilioFile_def)
  then obtain c2 where
    r2: "New noCasts twilioFile ''config.yaml'' twilioClient twilioEnv = (Inr c2, e2)"
    by blast
  have eq: "LoadFromSecret twilioClient ''HOST_OPERATOR_SECRET_NAME''
           (os_Setenv ''HOST_OPERATOR_SECRET_NAME'' ''host-operator-secret'' Map.empty) =
         LoadFromSecret twilioClient ''HOST_OPERATOR_SECRET_NAME''
           (os_Setenv ''HOST_OPERATOR_SECRET_NAME'' ''host-operator-secret'' twilioEnv)"
    by (simp add: twilioClient_def)
  from twilio_only_secret [OF r1 r2 eq]
  have t: "secretValues c1 = twilioSecret" "secretValues c2 = twilioSecret"
    "GetTwilioAccountSID c1 = GetTwilioAccountSID c2"
    by (auto simp: twilioClient_def)
  have "GetTwilioAccountSID c2 = ''AC0123''"
    using t(2) by (simp add: GetTwilioAccountSID_def mapIndex_def twilioSecret_def
        varTwilioAccountSID_def)
  with r1 r2 t(3) show ?thesis by simp
qed

text \<open>
  C4. Construction is all or nothing. \<open>New\<close> returns the loader's error, and no
  configuration, when the secret loader fails and when the config-map loader fails; it
  returns the file error wrapped with "failed to read config file" when the path is not
  empty and the file cannot be read or parsed. With working loaders and an empty path it
  returns a configuration, and the result is the same for every file system: no file is
  read.
\<close>

theorem New_all_or_nothing:
  "(\<forall>e. LoadFromSecret cl ''HOST_OPERATOR_SECRET_NAME''
          (os_Setenv ''HOST_OPERATOR_SECRET_NAME'' ''host-operator-secret'' env) = Inl e \<longrightarrow>
        fst (New cv fs path cl env) = Inl e) \<and>
   (\<forall>s e. LoadFromSecret cl ''HOST_OPERATOR_SECRET_NAME''
            (os_Setenv ''HOST_OPERATOR_SECRET_NAME'' ''host-operator-secret'' env) = Inr s \<and>
          fst (LoadFromConfigMap cl EnvPrefix ''HOST_OPERATOR_CONFIG_MAP_NAME''
            (os_Setenv ''HOST_OPERATOR_CONFIG_MAP_NAME'' ''host-operator-config''
              (os_Setenv ''HOST_OPERATOR_SECRET_NAME'' ''host-operator-secret'' env))) = Some e \<longrightarrow>
        fst (New cv fs path cl env) = Inl e) \<and>
   (\<forall>s e. LoadFromSecret cl ''HOST_OPERATOR_SECRET_NAME''
            (os_Setenv ''HOST_OPERATOR_SECRET_NAME'' ''host-operator-secret'' env) = Inr s \<and>
          fst (LoadFromConfigMap cl EnvPrefix ''HOST_OPERATOR_CONFIG_MAP_NAME''
            (os_Setenv ''HOST_OPERATOR_CONFIG_MAP_NAME'' ''host-operator-config''
              (os_Setenv ''HOST_OPERATOR_SECRET_NAME'' ''host-operator-secret'' env))) = None \<and>
          path \<noteq> [] \<and> fs ''yaml'' path = Inl e \<longrightarrow>
        fst (New cv fs path cl env) = Inl (Wrap e ''failed to read config file'')) \<and>
   (\<forall>s fs'. LoadFromSecret cl ''HOST_OPERATOR_SECRET_NAME''
            (os_Setenv ''HOST_OPERATOR_SECRET_NAME'' ''host-operator-secret'' env) = Inr s \<and>
          fst (LoadFromConfigMap cl EnvPrefix ''HOST_OPERATOR_CONFIG_MAP_NAME''
            (os_Setenv ''HOST_OPERATOR_CONFIG_MAP_NAME'' ''host-operator-config''
              (os_Setenv ''HOST_OPERATOR_SECRET_NAME'' ''host-operator-secret'' env))) = None \<longrightarrow>
        (\<exists>c. fst (New cv fs [] cl env) = Inr c) \<and>
        New cv fs' [] cl env = New cv fs [] cl env)"
  by (auto simp: New_def LoadConfig_def Let_def ReadInConfig_def SetConfigFile_def
      SetConfigType_def split: sum.splits prod.splits option.splits)

theorem New_all_or_nothing_witness:
  "fst (New noCasts noFiles [] failingSecretClient Map.empty) = Inl (Failure ''secret unreachable'') \<and>
   fst (New noCasts noFiles [] failingConfigMapClient Map.empty) =
     Inl (Failure ''config map unreachable'') \<and>
   fst (New noCasts noFiles ''missing.yaml'' twilioClient Map.empty) =
     Inl (Wrap (Failure ''no such file or directory'') ''failed to read config file'') \<and>
   (\<exists>c. fst (New noCasts noFiles [] twilioClient Map.empty) = Inr c) \<and>
   New noCasts twilioFile [] twilioClient Map.empty = New noCasts noFiles [] twilioClient Map.empty"
proof -
  note t1 = New_all_or_nothing [of failingSecretClient Map.empty noCasts noFiles "[]"]
  note t2 = New_all_or_nothing [of failingConfigMapClient Map.empty noCasts noFiles "[]"]
  note t3 = New_all_or_nothing [of twilioClient Map.empty noCasts noFiles "''missing.yaml''"]
  note t4 = New_all_or_nothing [of twilioClient Map.empty noCasts noFiles "[]"]
  have a: "fst (New noCasts noFiles [] failingSecretClient Map.empty) =
      Inl (Failure ''secret unreachable'')"
    using t1 by (simp add: failingSecretClient_def)
  have b: "fst (New noCasts noFiles [] failingConfigMapClient Map.empty) =
     Inl (Failure ''config map unreachable'')"
    using t2 by (simp add: failingConfigMapClient_def)
  have c: "fst (New noCasts noFiles ''missing.yaml'' twilioClient Map.empty) =
     Inl (Wrap (Failure ''no such file or directory'') ''failed to read config file'')"
    using t3 by (simp add: twilioClient_def noFiles_def)
  have d: "(\<exists>c. fst (New noCasts noFiles [] twilioClient Map.empty) = Inr c) \<and>
   New noCasts twilioFile [] twilioClient Map.empty = New noCasts noFiles [] twilioClient Map.empty"
    using t4 by (simp add: twilioClient_def)
  from a b c d show ?thesis by blast
qed

text \<open>
  C5. After construction \<open>GetVerificationExcludedEmailDomains\<close> is the comma-split of the
  excluded-domains string of the configuration: for "redhat.com,ibm.com" it is the two
  domains, for the empty string it is the empty list. No domain of the list is empty or
  holds a comma, and the domains together are the string without its commas.
\<close>

theorem excluded_domains_comma_split:
  assumes "New cv fs path cl env = (Inr c, env')"
  shows "GetVerificationExcludedEmailDomains c =
           strings_FieldsFunc
             (GetString cv (vreg c) env' varVerificationExcludedEmailDomains)
             (\<lambda>r. r = CHR '','') \<and>
         (GetString cv (vreg c) env' varVerificationExcludedEmailDomains = ''redhat.com,ibm.com''
            \<longrightarrow> GetVerificationExcludedEmailDomains c = [''redhat.com'', ''ibm.com'']) \<and>
         (GetString cv (vreg c) env' varVerificationExcludedEmailDomains = []
            \<longrightarrow> GetVerificationExcludedEmailDomains c = []) \<and>
         (\<forall>d \<in> set (GetVerificationExcludedEmailDomains c). d \<noteq> [] \<and> CHR '','' \<notin> set d) \<and>
         concat (GetVerificationExcludedEmailDomains c) =
           filter (\<lambda>r. r \<noteq> CHR '','')
             (GetString cv (vreg c) env' varVerificationExcludedEmailDomains)"
proof -
  have i: "isComma = (\<lambda>r. r = CHR '','')" by (simp add: isComma_def fun_eq_iff)
  have "GetVerificationExcludedEmailDomains c =
      strings_FieldsFunc (GetString cv (vreg c) env' varVerificationExcludedEmailDomains) isComma"
    by (simp add: GetVerificationExcludedEmailDomains_def New_excluded [OF assms])
  then have e: "GetVerificationExcludedEmailDomains c =
      strings_FieldsFunc (GetString cv (vreg c) env' varVerificationExcludedEmailDomains)
        (\<lambda>r. r = CHR '','')"
    by (simp add: i)
  have 1: "GetString cv (vreg c) env' varVerificationExcludedEmailDomains = ''redhat.com,ibm.com''
      \<longrightarrow> GetVerificationExcludedEmailDomains c = [''redhat.com'', ''ibm.com'']"
    using e FieldsFunc_example by (simp add: i)
  have 2: "GetString cv (vreg c) env' varVerificationExcludedEmailDomains = []
      \<longrightarrow> GetVerificationExcludedEmailDomains c = []"
    using e by (simp add: FieldsFunc_empty)
  have 3: "\<forall>d \<in> set (GetVerificationExcludedEmailDomains c). d \<noteq> [] \<and> CHR '','' \<notin> set d"
    unfolding e using FieldsFunc_no_separator by fastforce
  have 4: "concat (GetVerificationExcludedEmailDomains c) =
      filter (\<lambda>r. r \<noteq> CHR '','')
        (GetString cv (vreg c) env' varVerificationExcludedEmailDomains)"
    unfolding e by (simp add: FieldsFunc_concat)
  from e 1 2 3 4 show ?thesis by blast
qed


theorem excluded_domains_comma_split_witness:
  "(\<exists>c e. New noCasts domainsFile ''config.yaml'' twilioClient Map.empty = (Inr c, e) \<and>
      GetString noCasts (vreg c) e varVerificationExcludedEmailDomains = ''redhat.com,ibm.com'' \<and>
      GetVerificationExcludedEmailDomains c = [''redhat.com'', ''ibm.com'']) \<and>
   (\<exists>c e. New noCasts noFiles [] twilioClient Map.empty = (Inr c, e) \<and>
      GetString noCasts (vreg c) e varVerificationExcludedEmailDomains = [] \<and>
      GetVerificationExcludedEmailDomains c = [])"
proof -
  let ?e = "[''HOST_OPERATOR_SECRET_NAME'' \<mapsto> ''host-operator-secret'',
             ''HOST_OPERATOR_CONFIG_MAP_NAME'' \<mapsto> ''host-operator-config'']"
  from run_domainsFile obtain c1 where
    r1: "New noCasts domainsFile ''config.yaml'' twilioClient Map.empty = (Inr c1, ?e)"
    by blast
  have g1: "GetString noCasts (vreg c1) ?e varVerificationExcludedEmailDomains =
      ''redhat.com,ibm.com''"
    by (simp add: excluded_string New_vreg [OF r1] defaults_lookup defaults_search getEnv_registry bound_names
        isPathShadowedInAutoEnv_def parents_excluded domainsFile_def)
  have a: "GetVerificationExcludedEmailDomains c1 = [''redhat.com'', ''ibm.com'']"
    using excluded_domains_comma_split [OF r1] g1 by blast
  have r2: "New noCasts noFiles [] twilioClient Map.empty =
      (Inr (initConfig noCasts twilioSecret ?e), ?e)"
    by (simp add: New_ok_nofile twilioClient_def os_Setenv_def)
  have g2: "GetString noCasts (vreg (initConfig noCasts twilioSecret ?e)) ?e
      varVerificationExcludedEmailDomains = []"
    by (simp add: excluded_string New_vreg [OF r2] defaults_lookup defaults_search getEnv_registry bound_names
        isPathShadowedInAutoEnv_def parents_excluded)
  have b: "GetVerificationExcludedEmailDomains (initConfig noCasts twilioSecret ?e) = []"
    using excluded_domains_comma_split [OF r2] g2 by blast
  from r1 g1 a r2 g2 b show ?thesis by blast
qed




text \<open>
  C7. \<open>IsTestingMode\<close> is true exactly when \<open>GetEnvironment\<close> returns "unit-tests", for
  every configuration and every environment; in particular it is false when the
  environment is the default "prod".
\<close>

theorem IsTestingMode_iff:
  "IsTestingMode cv c env = (GetEnvironment cv c env = ''unit-tests'') \<and>
   (GetEnvironment cv c env = ''prod'' \<longrightarrow> \<not> IsTestingMode cv c env)"
  by (simp add: IsTestingMode_def UnitTestsEnvironment_def)

theorem IsTestingMode_iff_witness:
  "GetEnvironment noCasts (initConfig noCasts Map.empty Map.empty) Map.empty = ''prod'' \<and>
   \<not> IsTestingMode noCasts (initConfig noCasts Map.empty Map.empty) Map.empty"
proof -
  have "GetEnvironment noCasts (initConfig noCasts Map.empty Map.empty) Map.empty = ''prod''"
    by (simp add: GetEnvironment_def GetString_def Get_silent envSilent_empty fileSilent_empty
        initConfig_vreg varEnvironment_def lower_keys defaults_lookup defaults_search DefaultEnvironment_def)
  with IsTestingMode_iff [of noCasts "initConfig noCasts Map.empty Map.empty" Map.empty]
  show ?thesis by simp
qed

text \<open>
  C8, as stated: construction registers a default for every option of the table,
  "woopra.domain" among them. After construction the defaults hold no entry for
  "woopra.domain".
\<close>

theorem defaults_not_registered_counterexample:
  "map_of (defaults (vreg (initConfig noCasts Map.empty Map.empty))) ''woopra.domain'' = None"
  by (simp add: initConfig_vreg defaults_lookup)

text \<open>
  C8, amended. Construction registers a default for nineteen options, one call of
  \<open>SetDefault\<close> each, with the values of the \<open>Default\<close> constants. It registers none for
  "verification.excluded_email_domains", "woopra.domain" and "segment.write_key".
\<close>

theorem setConfigDefaults_registers:
  "map fst (defaults (vreg (initConfig cv secret env))) =
     [''http.address'', ''http.compress'', ''http.write_timeout'', ''http.read_timeout'',
      ''http.idle_timeout'', ''environment'', ''log.level'', ''log.json'', ''graceful_timeout'',
      ''auth_client.library_url'', ''auth_client.config.content_type'',
      ''auth_client.public_keys_url'', ''namespace'', ''auth_client.config.raw'',
      ''verification.enabled'', ''verification.daily_limit'', ''verification.attempts_allowed'',
      ''verification.message_template'', ''verification.code_expires_in_min''] \<and>
   defaults (vreg (initConfig cv secret env)) = registeredDefaults \<and>
   map_of (defaults (vreg (initConfig cv secret env))) ''verification.excluded_email_domains'' = None \<and>
   map_of (defaults (vreg (initConfig cv secret env))) ''woopra.domain'' = None \<and>
   map_of (defaults (vreg (initConfig cv secret env))) ''segment.write_key'' = None"
  by (simp add: initConfig_vreg defaults_lookup) (simp add: registeredDefaults_def var_defs)

text \<open>
  C9. \<open>PrintConfig\<close> logs one line whose pairs are the keys of the registry, each with the
  value \<open>Get\<close> resolves for it, in the order of the enumeration. The line does not depend
  on the secret mapping: two configurations with the same registry log the same line.
  When the enumeration returns the keys it is given, the logged keys are the keys of the
  file and those keys of the defaults that no value of the file hides.
\<close>

theorem PrintConfig_no_secret:
  assumes "vreg c1 = vreg c2"
  shows "PrintConfig ord cv c1 env = PrintConfig ord cv c2 env \<and>
         lineValues (PrintConfig ord cv c1 env) =
           map (\<lambda>key. (key, Get cv (vreg c1) env key)) (AllKeys ord (vreg c1)) \<and>
         ((\<forall>ks. set (ord ks) = set ks) \<longrightarrow>
           fst ` set (lineValues (PrintConfig ord cv c1 env)) =
             fst ` set (config (vreg c1)) \<union>
             {k \<in> fst ` set (defaults (vreg c1)).
                \<not> isShadowed (map fst (config (vreg c1))) k})"
proof -
  have "fst ` set (lineValues (PrintConfig ord cv c1 env)) = set (AllKeys ord (vreg c1))"
    by (simp add: PrintConfig_line image_image)
  moreover have "set (AllKeys ord (vreg c1)) = set (AllKeys (\<lambda>ks. ks) (vreg c1))"
    if "\<forall>ks. set (ord ks) = set ks"
    using that by (simp add: AllKeys_def Let_def)
  ultimately have "(\<forall>ks. set (ord ks) = set ks) \<longrightarrow>
           fst ` set (lineValues (PrintConfig ord cv c1 env)) =
             fst ` set (config (vreg c1)) \<union>
             {k \<in> fst ` set (defaults (vreg c1)).
                \<not> isShadowed (map fst (config (vreg c1))) k}"
    using AllKeys_set [of "vreg c1"] by simp
  with assms show ?thesis by (simp add: PrintConfig_line)
qed

theorem PrintConfig_no_secret_witness:
  "\<exists>c1 c2 e.
     New noCasts sectionFile ''config.yaml'' twilioClient Map.empty = (Inr c1, e) \<and>
     New noCasts sectionFile ''config.yaml'' plainClient Map.empty = (Inr c2, e) \<and>
     secretValues c1 ''twilio.auth.token'' = Some ''t0k3n'' \<and>
     secretValues c2 ''twilio.auth.token'' = None \<and>
     PrintConfig (\<lambda>ks. ks) noCasts c1 e = PrintConfig (\<lambda>ks. ks) noCasts c2 e \<and>
     map fst (lineValues (PrintConfig (\<lambda>ks. ks) noCasts c1 e)) =
       [''http'', ''environment'', ''log.level'', ''log.json'', ''graceful_timeout'',
        ''auth_client.library_url'', ''auth_client.config.content_type'',
        ''auth_client.public_keys_url'', ''namespace'', ''auth_client.config.raw'',
        ''verification.enabled'', ''verification.daily_limit'',
        ''verification.attempts_allowed'', ''verification.message_template'',
        ''verification.code_expires_in_min''] \<and>
     fst ` set (lineValues (PrintConfig (\<lambda>ks. ks) noCasts c1 e)) =
       insert ''http''
         {k \<in> fst ` set registeredDefaults. \<not> isShadowed [''http''] k}"
proof -
  let ?e = "[''HOST_OPERATOR_SECRET_NAME'' \<mapsto> ''host-operator-secret'',
             ''HOST_OPERATOR_CONFIG_MAP_NAME'' \<mapsto> ''host-operator-config'']"
  from run_sectionFile obtain c1 where
    r1: "New noCasts sectionFile ''config.yaml'' twilioClient Map.empty = (Inr c1, ?e)" and
    s1: "secretValues c1 = twilioSecret"
    by blast
  from run_sectionFile_plain obtain c2 where
    r2: "New noCasts sectionFile ''config.yaml'' plainClient Map.empty = (Inr c2, ?e)" and
    s2: "secretValues c2 = Map.empty"
    by blast
  have v: "vreg c1 = vreg c2"
    by (simp add: New_vreg [OF r1] New_vreg [OF r2])
  have m: "config (vreg c1) = [(''http'', VString ''foo'')]"
    "defaults (vreg c1) = registeredDefaults"
    by (simp_all add: New_vreg [OF r1] sectionFile_def)
  note t = PrintConfig_no_secret [OF v, of "\<lambda>ks. ks" noCasts ?e]
  from t have a: "PrintConfig (\<lambda>ks. ks) noCasts c1 ?e = PrintConfig (\<lambda>ks. ks) noCasts c2 ?e"
    by (rule conjunct1)
  from t have "lineValues (PrintConfig (\<lambda>ks. ks) noCasts c1 ?e) =
      map (\<lambda>key. (key, Get noCasts (vreg c1) ?e key)) (AllKeys (\<lambda>ks. ks) (vreg c1))"
    by blast
  then have "map fst (lineValues (PrintConfig (\<lambda>ks. ks) noCasts c1 ?e)) =
      AllKeys (\<lambda>ks. ks) (vreg c1)"
    by (simp add: comp_def)
  then have b: "map fst (lineValues (PrintConfig (\<lambda>ks. ks) noCasts c1 ?e)) =
       [''http'', ''environment'', ''log.level'', ''log.json'', ''graceful_timeout'',
        ''auth_client.library_url'', ''auth_client.config.content_type'',
        ''auth_client.public_keys_url'', ''namespace'', ''auth_client.config.raw'',
        ''verification.enabled'', ''verification.daily_limit'',
        ''verification.attempts_allowed'', ''verification.message_template'',
        ''verification.code_expires_in_min'']"
    by (simp only: AllKeys_sectionFile [OF m])
  have o: "\<forall>ks::string list. set ((\<lambda>ks. ks) ks) = set ks" by simp
  note t3 = t [THEN conjunct2, THEN conjunct2, THEN mp, OF o]
  have d: "fst ` set (lineValues (PrintConfig (\<lambda>ks. ks) noCasts c1 ?e)) =
       insert ''http''
         {k \<in> fst ` set registeredDefaults. \<not> isShadowed [''http''] k}"
    unfolding t3 m by simp
  have x1: "secretValues c1 ''twilio.auth.token'' = Some ''t0k3n''"
    by (simp add: s1 twilioSecret_def)
  have x2: "secretValues c2 ''twilio.auth.token'' = None"
    by (simp add: s2)
  show ?thesis
    by (rule exI [of _ c1], rule exI [of _ c2], rule exI [of _ ?e])
       (intro conjI r1 r2 x1 x2 a b d)
qed

text \<open>
  C10. \<open>LoadConfig\<close>, and so \<open>New\<close>, writes the process environment. The secret loader is
  called on the environment in which HOST_OPERATOR_SECRET_NAME is "host-operator-secret",
  whatever it was before; if the loader fails this is the environment left behind. If it
  succeeds, the config-map loader is called on the environment in which, in addition,
  HOST_OPERATOR_CONFIG_MAP_NAME is "host-operator-config", and the environment left behind
  is the one this loader returns. \<open>New\<close> leaves the environment of \<open>LoadConfig\<close>.
\<close>

theorem LoadConfig_sets_environment:
  "(\<forall>e. LoadFromSecret cl ''HOST_OPERATOR_SECRET_NAME''
          (env(''HOST_OPERATOR_SECRET_NAME'' \<mapsto> ''host-operator-secret'')) = Inl e \<longrightarrow>
        LoadConfig cv cl env =
          (Inl e, env(''HOST_OPERATOR_SECRET_NAME'' \<mapsto> ''host-operator-secret''))) \<and>
   (\<forall>s. LoadFromSecret cl ''HOST_OPERATOR_SECRET_NAME''
          (env(''HOST_OPERATOR_SECRET_NAME'' \<mapsto> ''host-operator-secret'')) = Inr s \<longrightarrow>
        LoadConfig cv cl env =
          (case LoadFromConfigMap cl EnvPrefix ''HOST_OPERATOR_CONFIG_MAP_NAME''
                  (env(''HOST_OPERATOR_SECRET_NAME'' \<mapsto> ''host-operator-secret'',
                       ''HOST_OPERATOR_CONFIG_MAP_NAME'' \<mapsto> ''host-operator-config'')) of
             (Some e, env3) \<Rightarrow> (Inl e, env3)
           | (None, env3) \<Rightarrow> (Inr (initConfig cv s env3), env3))) \<and>
   snd (New cv fs path cl env) = snd (LoadConfig cv cl env)"
  by (auto simp: New_def LoadConfig_def Let_def os_Setenv_def ReadInConfig_def
      split: sum.splits prod.splits option.splits)

theorem LoadConfig_sets_environment_witness:
  "staleEnv ''HOST_OPERATOR_SECRET_NAME'' = Some ''stale-secret'' \<and>
   staleEnv ''HOST_OPERATOR_CONFIG_MAP_NAME'' = Some ''stale-config'' \<and>
   snd (LoadConfig noCasts failingSecretClient staleEnv) ''HOST_OPERATOR_SECRET_NAME'' =
     Some ''host-operator-secret'' \<and>
   snd (LoadConfig noCasts failingSecretClient staleEnv) ''HOST_OPERATOR_CONFIG_MAP_NAME'' =
     Some ''stale-config'' \<and>
   secretValues (projr (fst (LoadConfig noCasts echoClient staleEnv))) ''name'' =
     Some ''host-operator-secret'' \<and>
   snd (LoadConfig noCasts echoClient staleEnv) ''HOST_OPERATOR_SECRET_NAME'' =
     Some ''host-operator-secret'' \<and>
   snd (LoadConfig noCasts echoClient staleEnv) ''HOST_OPERATOR_CONFIG_MAP_NAME'' =
     Some ''host-operator-config'' \<and>
   snd (New noCasts noFiles [] echoClient staleEnv) ''HOST_OPERATOR_CONFIG_MAP_NAME'' =
     Some ''host-operator-config''"
proof -
  note f = LoadConfig_sets_environment [of failingSecretClient staleEnv noCasts noFiles "[]"]
  note g = LoadConfig_sets_environment [of echoClient staleEnv noCasts noFiles "[]"]
  have a: "LoadConfig noCasts failingSecretClient staleEnv =
      (Inl (Failure ''secret unreachable''),
       staleEnv(''HOST_OPERATOR_SECRET_NAME'' \<mapsto> ''host-operator-secret''))"
    using f by (simp add: failingSecretClient_def)
  have b: "LoadConfig noCasts echoClient staleEnv =
      (Inr (initConfig noCasts [''name'' \<mapsto> ''host-operator-secret'']
             (staleEnv(''HOST_OPERATOR_SECRET_NAME'' \<mapsto> ''host-operator-secret'',
                       ''HOST_OPERATOR_CONFIG_MAP_NAME'' \<mapsto> ''host-operator-config''))),
       staleEnv(''HOST_OPERATOR_SECRET_NAME'' \<mapsto> ''host-operator-secret'',
                ''HOST_OPERATOR_CONFIG_MAP_NAME'' \<mapsto> ''host-operator-config''))"
    using g by (simp add: echoClient_def)
  have c: "snd (New noCasts noFiles [] echoClient staleEnv) =
      snd (LoadConfig noCasts echoClient staleEnv)"
    using g by blast
  show ?thesis
    unfolding c unfolding a b
    by (simp add: staleEnv_def initConfig_def Let_def)
qed

end
